theory Spec2Isabelle
  imports Complex_Main
begin

section \<open>Dense views\<close>

text \<open>
  The kernels of \<^verbatim>\<open>ngblas.hpp\<close> work on non-owning views. A view is modelled by what
  the code can do with it: ask for its extent and read or write the element at a logical
  index. \<^verbatim>\<open>FlatVector<T>\<close> and \<^verbatim>\<open>SliceVector<T>\<close> both carry a size and an accessor
  \<^verbatim>\<open>operator[]\<close>; the stride of a slice vector lies below the logical index and is not
  visible in the loops modelled here. The accessor is total, as a raw pointer is: an index at
  or beyond \<open>Size\<close> simply addresses the memory behind the view.

  The element type is left polymorphic; every operation says which arithmetic it needs.
  Where results are compared with sums and products, the elements form a commutative ring
  or a field: the arithmetic is exact, and the rounding of \<^verbatim>\<open>double\<close> is not modelled.
\<close>

record 'a FlatVector =
  Size :: nat
  Data :: "nat \<Rightarrow> 'a"

type_synonym 'a SliceVector = "'a FlatVector"

text \<open>\<^verbatim>\<open>BareSliceVector<T>\<close> has no size: only the accessor.\<close>

type_synonym 'a BareSliceVector = "nat \<Rightarrow> 'a"

text \<open>The assignment \<^verbatim>\<open>v[i] = x\<close> through a view.\<close>

definition vec_assign :: "'a FlatVector \<Rightarrow> nat \<Rightarrow> 'a \<Rightarrow> 'a FlatVector" where
  "vec_assign v i x = v\<lparr>Data := (Data v)(i := x)\<rparr>"

section \<open>Vector primitives\<close>

text \<open>
  \<^verbatim>\<open>for (size_t i : Range(dest)) dest[i] = src[i];\<close>
  The loop runs over the index range of \<^verbatim>\<open>dest\<close>, here the list \<open>[0..<Size dest]\<close>; the
  two overloads (flat and slice vectors) have the same body.
\<close>

fun CopyVector_loop :: "nat list \<Rightarrow> 'a FlatVector \<Rightarrow> 'a FlatVector \<Rightarrow> 'a FlatVector" where
  "CopyVector_loop [] src dest = dest"
| "CopyVector_loop (i # is) src dest = CopyVector_loop is src (vec_assign dest i (Data src i))"

definition CopyVector :: "'a FlatVector \<Rightarrow> 'a FlatVector \<Rightarrow> 'a FlatVector" where
  "CopyVector src dest = CopyVector_loop [0..<Size dest] src dest"

text \<open>\<^verbatim>\<open>for (size_t i : Range(dest)) dest[i] += alpha*src[i];\<close>\<close>

fun AddVector_loop ::
  "nat list \<Rightarrow> 'a::{plus,times} \<Rightarrow> 'a FlatVector \<Rightarrow> 'a FlatVector \<Rightarrow> 'a FlatVector" where
  "AddVector_loop [] alpha src dest = dest"
| "AddVector_loop (i # is) alpha src dest =
     AddVector_loop is alpha src (vec_assign dest i (Data dest i + alpha * Data src i))"

definition AddVector :: "'a::{plus,times} \<Rightarrow> 'a FlatVector \<Rightarrow> 'a FlatVector \<Rightarrow> 'a FlatVector" where
  "AddVector alpha src dest = AddVector_loop [0..<Size dest] alpha src dest"

section \<open>Matrix views\<close>

text \<open>
  \<^verbatim>\<open>SliceMatrix<T,ord>\<close> is a view with a height, a width, a memory order and the
  accessor \<^verbatim>\<open>operator()(i,j)\<close> on logical indices. The order is a template argument in
  the source and a field here: it selects overloads and is flipped by \<^verbatim>\<open>Trans\<close>.
  \<^verbatim>\<open>BareSliceMatrix<T>\<close> has no extents: only the accessor.
\<close>

datatype ORDERING = RowMajor | ColMajor

type_synonym 'a BareSliceMatrix = "nat \<Rightarrow> nat \<Rightarrow> 'a"

record 'a SliceMatrix =
  Height :: nat
  Width :: nat
  Ord :: ORDERING
  Elems :: "'a BareSliceMatrix"

fun flip_order :: "ORDERING \<Rightarrow> ORDERING" where
  "flip_order RowMajor = ColMajor"
| "flip_order ColMajor = RowMajor"

text \<open>
  \<^verbatim>\<open>Trans(a)\<close>: the transposed view of the same memory, with the other order. A routine that
  writes through \<open>Trans a\<close> writes \<open>a\<close>; the caller's matrix afterwards is the transposed
  view of the routine's result.
\<close>

definition Trans :: "'a SliceMatrix \<Rightarrow> 'a SliceMatrix" where
  "Trans a = \<lparr>Height = Width a, Width = Height a, Ord = flip_order (Ord a),
              Elems = (\<lambda>i j. Elems a j i)\<rparr>"

section \<open>Dispatch tables\<close>

text \<open>
  A dispatch table is a C array of function pointers, \<^verbatim>\<open>extern\<close> in the header: its
  contents are defined elsewhere, so every entry point takes its table as an argument. The
  list's length is the array's declared extent (\<^verbatim>\<open>std::size\<close>). Indexing a C array
  outside its extent is undefined behaviour: \<open>table_entry\<close> returns \<open>None\<close> there, and an
  entry point that would do so returns \<open>None\<close>.
\<close>

definition table_entry :: "'f list \<Rightarrow> nat \<Rightarrow> 'f option" where
  "table_entry tbl i = (if i < length tbl then Some (tbl ! i) else None)"

text \<open>
  A routine receives its output view by value and writes through it; the model returns the
  output after the call.
\<close>

type_synonym 'a pmult_matvec =
  "'a BareSliceMatrix \<Rightarrow> 'a FlatVector \<Rightarrow> 'a FlatVector \<Rightarrow> 'a FlatVector"

type_synonym 'a pmultadd_matvec =
  "'a \<Rightarrow> 'a BareSliceMatrix \<Rightarrow> 'a FlatVector \<Rightarrow> 'a FlatVector \<Rightarrow> 'a FlatVector"

type_synonym 'a pmultadd_mattransvecind =
  "'a \<Rightarrow> 'a BareSliceMatrix \<Rightarrow> 'a FlatVector \<Rightarrow> 'a FlatVector \<Rightarrow> nat list \<Rightarrow> 'a FlatVector"

type_synonym 'a pmultABW =
  "nat \<Rightarrow> nat \<Rightarrow> nat \<Rightarrow> 'a BareSliceMatrix \<Rightarrow> 'a BareSliceMatrix \<Rightarrow> 'a BareSliceMatrix
   \<Rightarrow> 'a BareSliceMatrix"

type_synonym 'a pfunc_abt =
  "nat \<Rightarrow> nat \<Rightarrow> 'a BareSliceMatrix \<Rightarrow> 'a BareSliceMatrix \<Rightarrow> 'a BareSliceMatrix
   \<Rightarrow> 'a BareSliceMatrix"

type_synonym 'a matmat_extern =
  "'a SliceMatrix \<Rightarrow> 'a SliceMatrix \<Rightarrow> 'a BareSliceMatrix \<Rightarrow> 'a BareSliceMatrix"

section \<open>Matrix-vector entry points\<close>

text \<open>
  \<^verbatim>\<open>size_t dsx = min(x.Size(), std::size(dispatch_matvec)-1);
  (*dispatch_matvec[dsx]) (a, x, y);\<close>
  The table is declared with 26 entries.
\<close>

definition MultMatVec ::
  "'a pmult_matvec list \<Rightarrow> 'a BareSliceMatrix \<Rightarrow> 'a FlatVector \<Rightarrow> 'a FlatVector
   \<Rightarrow> 'a FlatVector option" where
  "MultMatVec dispatch_matvec a x y =
     (let dsx = min (Size x) (length dispatch_matvec - 1)
      in map_option (\<lambda>f. f a x y) (table_entry dispatch_matvec dsx))"

text \<open>\<^verbatim>\<open>dispatch_addmatvec[25]\<close>\<close>

definition MultAddMatVec ::
  "'a pmultadd_matvec list \<Rightarrow> 'a \<Rightarrow> 'a BareSliceMatrix \<Rightarrow> 'a FlatVector \<Rightarrow> 'a FlatVector
   \<Rightarrow> 'a FlatVector option" where
  "MultAddMatVec dispatch_addmatvec s a x y =
     (let dsx = min (Size x) (length dispatch_addmatvec - 1)
      in map_option (\<lambda>f. f s a x y) (table_entry dispatch_addmatvec dsx))"

text \<open>\<^verbatim>\<open>dispatch_mattransvec[13]\<close>\<close>

definition MultMatTransVec ::
  "'a pmult_matvec list \<Rightarrow> 'a BareSliceMatrix \<Rightarrow> 'a FlatVector \<Rightarrow> 'a FlatVector
   \<Rightarrow> 'a FlatVector option" where
  "MultMatTransVec dispatch_mattransvec a x y =
     (let dsx = min (Size x) (length dispatch_mattransvec - 1)
      in map_option (\<lambda>f. f a x y) (table_entry dispatch_mattransvec dsx))"

text \<open>\<^verbatim>\<open>dispatch_addmattransvec[13]\<close>\<close>

definition MultAddMatTransVec ::
  "'a pmultadd_matvec list \<Rightarrow> 'a \<Rightarrow> 'a BareSliceMatrix \<Rightarrow> 'a FlatVector \<Rightarrow> 'a FlatVector
   \<Rightarrow> 'a FlatVector option" where
  "MultAddMatTransVec dispatch_addmattransvec s a x y =
     (let dsx = min (Size x) (length dispatch_addmattransvec - 1)
      in map_option (\<lambda>f. f s a x y) (table_entry dispatch_addmattransvec dsx))"

text \<open>
  \<^verbatim>\<open>size_t sy = y.Size();
  if (sy <= 24) (*dispatch_addmattransvecI[sy]) (s, a, x, y, ind);
  else MultAddMatTransVecIndirect_intern (s, a, x, y, ind);\<close>
  The table is declared with 25 entries; \<^verbatim>\<open>MultAddMatTransVecIndirect_intern\<close> is
  \<^verbatim>\<open>extern\<close> and an argument here. \<^verbatim>\<open>FlatArray<int> ind\<close> is the list of its entries;
  they are positions in a vector, so natural numbers.
\<close>

definition MultAddMatTransVecIndirect ::
  "'a pmultadd_mattransvecind list \<Rightarrow> 'a pmultadd_mattransvecind
   \<Rightarrow> 'a \<Rightarrow> 'a BareSliceMatrix \<Rightarrow> 'a FlatVector \<Rightarrow> 'a FlatVector \<Rightarrow> nat list
   \<Rightarrow> 'a FlatVector option" where
  "MultAddMatTransVecIndirect dispatch_addmattransvecI MultAddMatTransVecIndirect_intern
       s a x y ind =
     (let sy = Size y
      in if sy \<le> 24
         then map_option (\<lambda>f. f s a x y ind) (table_entry dispatch_addmattransvecI sy)
         else Some (MultAddMatTransVecIndirect_intern s a x y ind))"

section \<open>Matrix-matrix entry points\<close>

text \<open>
  \<^verbatim>\<open>if (a.Height() == 0 || b.Width() == 0) return;
  size_t wa = std::min(a.Width(), std::size(dispatch_multAB)-1);
  (*dispatch_multAB[wa]) (a.Height(), a.Width(), b.Width(), a, b, c);\<close>
  The four tables are declared with 14 entries each. The routine gets the three views as
  bare matrices and writes the memory of \<open>c\<close>.
\<close>

definition MultMatMat ::
  "'a pmultABW list \<Rightarrow> 'a SliceMatrix \<Rightarrow> 'a SliceMatrix \<Rightarrow> 'a SliceMatrix
   \<Rightarrow> 'a SliceMatrix option" where
  "MultMatMat dispatch_multAB a b c =
     (if Height a = 0 \<or> Width b = 0 then Some c
      else let wa = min (Width a) (length dispatch_multAB - 1)
           in map_option
                (\<lambda>f. c\<lparr>Elems := f (Height a) (Width a) (Width b) (Elems a) (Elems b) (Elems c)\<rparr>)
                (table_entry dispatch_multAB wa))"

definition MinusMultAB ::
  "'a pmultABW list \<Rightarrow> 'a SliceMatrix \<Rightarrow> 'a SliceMatrix \<Rightarrow> 'a SliceMatrix
   \<Rightarrow> 'a SliceMatrix option" where
  "MinusMultAB dispatch_minusmultAB a b c =
     (if Height a = 0 \<or> Width b = 0 then Some c
      else let wa = min (Width a) (length dispatch_minusmultAB - 1)
           in map_option
                (\<lambda>f. c\<lparr>Elems := f (Height a) (Width a) (Width b) (Elems a) (Elems b) (Elems c)\<rparr>)
                (table_entry dispatch_minusmultAB wa))"

definition AddAB ::
  "'a pmultABW list \<Rightarrow> 'a SliceMatrix \<Rightarrow> 'a SliceMatrix \<Rightarrow> 'a SliceMatrix
   \<Rightarrow> 'a SliceMatrix option" where
  "AddAB dispatch_addAB a b c =
     (if Height a = 0 \<or> Width b = 0 then Some c
      else let wa = min (Width a) (length dispatch_addAB - 1)
           in map_option
                (\<lambda>f. c\<lparr>Elems := f (Height a) (Width a) (Width b) (Elems a) (Elems b) (Elems c)\<rparr>)
                (table_entry dispatch_addAB wa))"

definition SubAB ::
  "'a pmultABW list \<Rightarrow> 'a SliceMatrix \<Rightarrow> 'a SliceMatrix \<Rightarrow> 'a SliceMatrix
   \<Rightarrow> 'a SliceMatrix option" where
  "SubAB dispatch_subAB a b c =
     (if Height a = 0 \<or> Width b = 0 then Some c
      else let wa = min (Width a) (length dispatch_subAB - 1)
           in map_option
                (\<lambda>f. c\<lparr>Elems := f (Height a) (Width a) (Width b) (Elems a) (Elems b) (Elems c)\<rparr>)
                (table_entry dispatch_subAB wa))"

text \<open>
  \<^verbatim>\<open>template <bool ADD, bool POS> MatMat_AtB (SliceMatrix<double> a, SliceMatrix<double> b,
  BareSliceMatrix<double> c)\<close> has the same body over the table
  \<^verbatim>\<open>dispatch_atb<ADD,POS>::ptrs[14]\<close>, which the caller passes for its \<open>ADD\<close>, \<open>POS\<close>.
  Its output is a bare matrix.
\<close>

definition MatMat_AtB ::
  "'a pmultABW list \<Rightarrow> 'a SliceMatrix \<Rightarrow> 'a SliceMatrix \<Rightarrow> 'a BareSliceMatrix
   \<Rightarrow> 'a BareSliceMatrix option" where
  "MatMat_AtB ptrs a b c =
     (if Height a = 0 \<or> Width b = 0 then Some c
      else let wa = min (Width a) (length ptrs - 1)
           in map_option (\<lambda>f. f (Height a) (Width a) (Width b) (Elems a) (Elems b) c)
                (table_entry ptrs wa))"

text \<open>
  \<^verbatim>\<open>size_t wa = a.Width();
  if (wa <= 24) (*dispatch_abt[wa]) (a.Height(), b.Height(), a, b, c);
  else MultABt_intern (a,b,c);\<close>
  \<^verbatim>\<open>dispatch_abt\<close> and \<^verbatim>\<open>dispatch_addabt\<close> are declared with 25 entries.
\<close>

definition MultABt ::
  "'a pfunc_abt list \<Rightarrow> 'a matmat_extern \<Rightarrow> 'a SliceMatrix \<Rightarrow> 'a SliceMatrix
   \<Rightarrow> 'a BareSliceMatrix \<Rightarrow> 'a BareSliceMatrix option" where
  "MultABt dispatch_abt MultABt_intern a b c =
     (let wa = Width a
      in if wa \<le> 24
         then map_option (\<lambda>f. f (Height a) (Height b) (Elems a) (Elems b) c)
                (table_entry dispatch_abt wa)
         else Some (MultABt_intern a b c))"

definition AddABt ::
  "'a pfunc_abt list \<Rightarrow> 'a matmat_extern \<Rightarrow> 'a SliceMatrix \<Rightarrow> 'a SliceMatrix
   \<Rightarrow> 'a BareSliceMatrix \<Rightarrow> 'a BareSliceMatrix option" where
  "AddABt dispatch_addabt AddABt_intern a b c =
     (let wa = Width a
      in if wa \<le> 24
         then map_option (\<lambda>f. f (Height a) (Height b) (Elems a) (Elems b) c)
                (table_entry dispatch_addabt wa)
         else Some (AddABt_intern a b c))"

section \<open>Generic semantics\<close>

text \<open>
  The generic template \<^verbatim>\<open>NgGEMM<ADD,POS,orda,ordb>\<close>:
  \<^verbatim>\<open>if (!ADD) { if (!POS) c = -1*a*b; else c = 1*a*b; }
  else { if (!POS) c -= 1*a*b; else c += 1*a*b; }\<close>
  (the generic \<^verbatim>\<open>MultMatMat\<close> template is \<^verbatim>\<open>c = a * b\<close>). The assignment evaluates the
  expression at every index of \<open>c\<close>; the entry \<open>(i,j)\<close> of \<^verbatim>\<open>s*a*b\<close> is the sum over the
  width of \<open>a\<close>.
\<close>

definition scaled_product ::
  "'a::comm_ring_1 \<Rightarrow> 'a SliceMatrix \<Rightarrow> 'a SliceMatrix \<Rightarrow> nat \<Rightarrow> nat \<Rightarrow> 'a" where
  "scaled_product s a b i j = (\<Sum>k<Width a. (s * Elems a i k) * Elems b k j)"

definition NgGEMM_generic ::
  "bool \<Rightarrow> bool \<Rightarrow> 'a::comm_ring_1 SliceMatrix \<Rightarrow> 'a SliceMatrix \<Rightarrow> 'a SliceMatrix
   \<Rightarrow> 'a SliceMatrix" where
  "NgGEMM_generic ADD POS a b c =
     c\<lparr>Elems := (\<lambda>i j.
          if i < Height c \<and> j < Width c
          then (if \<not> ADD
                then (if \<not> POS then scaled_product (- 1) a b i j else scaled_product 1 a b i j)
                else (if \<not> POS then Elems c i j - scaled_product 1 a b i j
                      else Elems c i j + scaled_product 1 a b i j))
          else Elems c i j)\<rparr>"

text \<open>
  Modelled from the spec: the four result policies, \<open>C := P\<close>, \<open>C := -P\<close>, \<open>C += P\<close> and
  \<open>C -= P\<close>, selected by \<open>ADD\<close> and \<open>POS\<close> as the table in the header lists them; \<open>old\<close> is
  the element of \<open>C\<close> before the call and \<open>p\<close> the element of the product.
\<close>

definition policy :: "bool \<Rightarrow> bool \<Rightarrow> 'a::comm_ring_1 \<Rightarrow> 'a \<Rightarrow> 'a" where
  "policy ADD POS old p =
     (if \<not> ADD then (if \<not> POS then - p else p) else (if \<not> POS then old - p else old + p))"

text \<open>
  Modelled from the spec: the routines behind \<^verbatim>\<open>dispatch_multAB\<close>,
  \<^verbatim>\<open>dispatch_minusmultAB\<close>, \<^verbatim>\<open>dispatch_addAB\<close> and \<^verbatim>\<open>dispatch_subAB\<close> are not in the
  header. The spec gives their contract: \<open>C := A\<cdot>B\<close>, \<open>C := -A\<cdot>B\<close>, \<open>C += A\<cdot>B\<close>,
  \<open>C -= A\<cdot>B\<close> on the block of \<open>ha\<close> rows and \<open>wb\<close> columns, contracted over \<open>wa\<close>.
\<close>

definition kernel_AB :: "bool \<Rightarrow> bool \<Rightarrow> 'a::comm_ring_1 pmultABW" where
  "kernel_AB ADD POS ha wa wb a b c =
     (\<lambda>i j. if i < ha \<and> j < wb then policy ADD POS (c i j) (\<Sum>k<wa. a i k * b k j) else c i j)"

section \<open>Reference semantics of the matrix-vector products\<close>

text \<open>
  The generic template \<^verbatim>\<open>NgGEMV\<close> writes \<^verbatim>\<open>y = 1*a*x\<close> and \<^verbatim>\<open>y += 1*a*x\<close>: the
  expression is evaluated at every index of \<open>y\<close>, and entry \<open>i\<close> of \<open>a*x\<close> is the sum over
  the length of \<open>x\<close>, the contracted vector.
\<close>

definition matvec_entry :: "'a::semiring_0 BareSliceMatrix \<Rightarrow> 'a FlatVector \<Rightarrow> nat \<Rightarrow> 'a" where
  "matvec_entry a x i = (\<Sum>j<Size x. a i j * Data x j)"

text \<open>Modelled from the spec: the reference result \<open>y := A\<cdot>x\<close>.\<close>

definition MultMatVec_generic :: "'a::semiring_0 pmult_matvec" where
  "MultMatVec_generic a x y =
     y\<lparr>Data := (\<lambda>i. if i < Size y then matvec_entry a x i else Data y i)\<rparr>"




text \<open>
  Modelled from the spec: the contents of the matrix-vector dispatch tables are not in the
  header. The spec describes them: one micro-kernel per small fixed dimension, written
  for that exact size, and in the last slot a general loop that handles any length. The
  micro-kernel for the contracted length \<open>n\<close> does \<open>n\<close> multiply-adds per entry of \<open>y\<close>,
  whatever the size of the vector it is given.
\<close>

fun dot_fixed :: "nat \<Rightarrow> (nat \<Rightarrow> 'a::semiring_0) \<Rightarrow> (nat \<Rightarrow> 'a) \<Rightarrow> 'a" where
  "dot_fixed 0 r x = 0"
| "dot_fixed (Suc n) r x = dot_fixed n r x + r n * x n"


text \<open>Modelled from the spec: the micro-kernel of \<open>y := A\<cdot>x\<close> for contracted length \<open>n\<close>.\<close>

definition matvec_short :: "nat \<Rightarrow> 'a::semiring_0 pmult_matvec" where
  "matvec_short n a x y =
     y\<lparr>Data := (\<lambda>i. if i < Size y then dot_fixed n (a i) (Data x) else Data y i)\<rparr>"












text \<open>
  Modelled from the spec: the routines behind \<^verbatim>\<open>dispatch_addmattransvecI\<close> and
  \<^verbatim>\<open>MultAddMatTransVecIndirect_intern\<close> are not in the header. The spec gives their
  result: \<open>y[ind[i]] += s * sum_j x[j]*A[j,i]\<close> for every position \<open>i\<close> of the index map,
  the sum running over the contracted vector \<open>x\<close>.
\<close>

definition MultAddMatTransVecIndirect_generic :: "'a::semiring_0 pmultadd_mattransvecind" where
  "MultAddMatTransVecIndirect_generic s a x y ind =
     fold (\<lambda>i y. vec_assign y (ind ! i)
                   (Data y (ind ! i) + s * (\<Sum>j<Size x. Data x j * a j i)))
       [0..<length ind] y"

text \<open>
  Modelled from the spec: the contract of the routines behind \<^verbatim>\<open>dispatch_atb\<close>, which
  are not in the header: \<open>C := A\<^sup>t\<cdot>B\<close> and its variants, for an \<open>a\<close> of \<open>ha\<close> rows and \<open>wa\<close>
  columns.
\<close>

definition kernel_AtB :: "bool \<Rightarrow> bool \<Rightarrow> 'a::comm_ring_1 pmultABW" where
  "kernel_AtB ADD POS ha wa wb a b c =
     (\<lambda>i j. if i < wa \<and> j < wb then policy ADD POS (c i j) (\<Sum>k<ha. a k i * b k j) else c i j)"

text \<open>
  Modelled from the spec: the contract of the \<^verbatim>\<open>ABt\<close> family (the routines behind
  \<^verbatim>\<open>dispatch_abt\<close> and \<^verbatim>\<open>dispatch_addabt\<close>, the \<^verbatim>\<open>_intern\<close> fallbacks, \<^verbatim>\<open>MinusMultABt\<close>
  and \<^verbatim>\<open>SubABt\<close>, none of them in the header): \<open>C := A\<cdot>B\<^sup>t\<close> and its variants, for \<open>a\<close> of
  shape \<open>ha\<times>wa\<close> and \<open>b\<close> of \<open>hb\<close> rows.
\<close>

definition kernel_ABt ::
  "bool \<Rightarrow> bool \<Rightarrow> nat \<Rightarrow> nat \<Rightarrow> nat \<Rightarrow> 'a::comm_ring_1 BareSliceMatrix \<Rightarrow> 'a BareSliceMatrix
   \<Rightarrow> 'a BareSliceMatrix \<Rightarrow> 'a BareSliceMatrix" where
  "kernel_ABt ADD POS ha wa hb a b c =
     (\<lambda>i j. if i < ha \<and> j < hb then policy ADD POS (c i j) (\<Sum>k<wa. a i k * b j k) else c i j)"

section \<open>The policy layer: NgGEMM\<close>

text \<open>
  Everything \<^verbatim>\<open>NgGEMM\<close> reaches that the header only declares: the dispatch tables, the
  two \<^verbatim>\<open>_intern\<close> fallbacks, and \<^verbatim>\<open>MinusMultABt\<close> and \<^verbatim>\<open>SubABt\<close>.
\<close>

record 'a ngblas_externs =
  ext_dispatch_multAB :: "'a pmultABW list"
  ext_dispatch_minusmultAB :: "'a pmultABW list"
  ext_dispatch_addAB :: "'a pmultABW list"
  ext_dispatch_subAB :: "'a pmultABW list"
  ext_dispatch_atb :: "bool \<Rightarrow> bool \<Rightarrow> 'a pmultABW list"
  ext_dispatch_abt :: "'a pfunc_abt list"
  ext_dispatch_addabt :: "'a pfunc_abt list"
  ext_MultABt_intern :: "'a matmat_extern"
  ext_AddABt_intern :: "'a matmat_extern"
  ext_MinusMultABt :: "'a matmat_extern"
  ext_SubABt :: "'a matmat_extern"

text \<open>
  Overload resolution for a row-major result: the twelve explicit specialisations, in the
  order of the header, and the generic template for every other instance.
\<close>

datatype NgGEMM_overload =
    Generic
  | Use_MultMatMat | Use_AddAB | Use_SubAB | Use_MinusMultAB
  | Use_MinusMultABt | Use_MultABt | Use_SubABt | Use_AddABt
  | Use_MatMat_AtB bool bool

fun NgGEMM_overload_for :: "bool \<Rightarrow> bool \<Rightarrow> ORDERING \<Rightarrow> ORDERING \<Rightarrow> NgGEMM_overload" where
  "NgGEMM_overload_for False True RowMajor RowMajor = Use_MultMatMat"
| "NgGEMM_overload_for True True RowMajor RowMajor = Use_AddAB"
| "NgGEMM_overload_for True False RowMajor RowMajor = Use_SubAB"
| "NgGEMM_overload_for False False RowMajor RowMajor = Use_MinusMultAB"
| "NgGEMM_overload_for False False RowMajor ColMajor = Use_MinusMultABt"
| "NgGEMM_overload_for False True RowMajor ColMajor = Use_MultABt"
| "NgGEMM_overload_for True False RowMajor ColMajor = Use_SubABt"
| "NgGEMM_overload_for True True RowMajor ColMajor = Use_AddABt"
| "NgGEMM_overload_for False True ColMajor RowMajor = Use_MatMat_AtB False True"
| "NgGEMM_overload_for True True ColMajor RowMajor = Use_MatMat_AtB True True"
| "NgGEMM_overload_for True False ColMajor RowMajor = Use_MatMat_AtB True False"
| "NgGEMM_overload_for False False ColMajor RowMajor = Use_MatMat_AtB False False"
| "NgGEMM_overload_for ADD POS orda ordb = Generic"

text \<open>The bodies of the generic template and of the specialisations.\<close>

fun NgGEMM_body ::
  "'a::comm_ring_1 ngblas_externs \<Rightarrow> NgGEMM_overload \<Rightarrow> bool \<Rightarrow> bool
   \<Rightarrow> 'a SliceMatrix \<Rightarrow> 'a SliceMatrix \<Rightarrow> 'a SliceMatrix \<Rightarrow> 'a SliceMatrix option" where
  "NgGEMM_body E Generic ADD POS a b c = Some (NgGEMM_generic ADD POS a b c)"
| "NgGEMM_body E Use_MultMatMat ADD POS a b c = MultMatMat (ext_dispatch_multAB E) a b c"
| "NgGEMM_body E Use_AddAB ADD POS a b c = AddAB (ext_dispatch_addAB E) a b c"
| "NgGEMM_body E Use_SubAB ADD POS a b c = SubAB (ext_dispatch_subAB E) a b c"
| "NgGEMM_body E Use_MinusMultAB ADD POS a b c = MinusMultAB (ext_dispatch_minusmultAB E) a b c"
| "NgGEMM_body E Use_MinusMultABt ADD POS a b c =
     Some (c\<lparr>Elems := ext_MinusMultABt E a (Trans b) (Elems c)\<rparr>)"
| "NgGEMM_body E Use_MultABt ADD POS a b c =
     map_option (\<lambda>m. c\<lparr>Elems := m\<rparr>)
       (MultABt (ext_dispatch_abt E) (ext_MultABt_intern E) a (Trans b) (Elems c))"
| "NgGEMM_body E Use_SubABt ADD POS a b c =
     Some (c\<lparr>Elems := ext_SubABt E a (Trans b) (Elems c)\<rparr>)"
| "NgGEMM_body E Use_AddABt ADD POS a b c =
     map_option (\<lambda>m. c\<lparr>Elems := m\<rparr>)
       (AddABt (ext_dispatch_addabt E) (ext_AddABt_intern E) a (Trans b) (Elems c))"
| "NgGEMM_body E (Use_MatMat_AtB ADD' POS') ADD POS a b c =
     map_option (\<lambda>m. c\<lparr>Elems := m\<rparr>)
       (MatMat_AtB (ext_dispatch_atb E ADD' POS') (Trans a) b (Elems c))"

definition NgGEMM_RowMajor ::
  "'a::comm_ring_1 ngblas_externs \<Rightarrow> bool \<Rightarrow> bool
   \<Rightarrow> 'a SliceMatrix \<Rightarrow> 'a SliceMatrix \<Rightarrow> 'a SliceMatrix \<Rightarrow> 'a SliceMatrix option" where
  "NgGEMM_RowMajor E ADD POS a b c =
     NgGEMM_body E (NgGEMM_overload_for ADD POS (Ord a) (Ord b)) ADD POS a b c"

text \<open>
  The overload for a column-major result, whatever the operands' orders:
  \<^verbatim>\<open>NgGEMM<ADD,POS> (Trans(b), Trans(a), Trans(c));\<close>
  \<open>Trans c\<close> is row-major, so the call resolves among the overloads above; the caller's
  \<open>c\<close> is the transposed view of what that call wrote.
\<close>

definition NgGEMM ::
  "'a::comm_ring_1 ngblas_externs \<Rightarrow> bool \<Rightarrow> bool
   \<Rightarrow> 'a SliceMatrix \<Rightarrow> 'a SliceMatrix \<Rightarrow> 'a SliceMatrix \<Rightarrow> 'a SliceMatrix option" where
  "NgGEMM E ADD POS a b c =
     (case Ord c of
        RowMajor \<Rightarrow> NgGEMM_RowMajor E ADD POS a b c
      | ColMajor \<Rightarrow> map_option Trans (NgGEMM_RowMajor E ADD POS (Trans b) (Trans a) (Trans c)))"

text \<open>The overload whose body finally runs, from the three orders.\<close>

definition NgGEMM_resolved :: "bool \<Rightarrow> bool \<Rightarrow> ORDERING \<Rightarrow> ORDERING \<Rightarrow> ORDERING \<Rightarrow> NgGEMM_overload" where
  "NgGEMM_resolved ADD POS orda ordb ordc =
     (case ordc of
        RowMajor \<Rightarrow> NgGEMM_overload_for ADD POS orda ordb
      | ColMajor \<Rightarrow> NgGEMM_overload_for ADD POS (flip_order ordb) (flip_order orda))"

text \<open>
  Modelled from the spec: what the spec asks of a table of the \<^verbatim>\<open>AB\<close> and \<^verbatim>\<open>AtB\<close>
  families. Entry \<open>n\<close> below the last computes the contract for the dispatched extent
  \<open>n\<close>, the last entry for every extent from its index on.
\<close>

definition pmultABW_table_ok :: "'a pmultABW \<Rightarrow> 'a pmultABW list \<Rightarrow> bool" where
  "pmultABW_table_ok krn tbl \<longleftrightarrow>
     length tbl = 14
   \<and> (\<forall>n<13. \<forall>h wb a b c. (tbl ! n) h n wb a b c = krn h n wb a b c)
   \<and> (\<forall>w\<ge>13. \<forall>h wb a b c. (tbl ! 13) h w wb a b c = krn h w wb a b c)"

text \<open>
  Modelled from the spec: the tables of the \<^verbatim>\<open>ABt\<close> family cover the widths up to 24 and
  the \<^verbatim>\<open>_intern\<close> routine every larger width.
\<close>

definition pfunc_abt_table_ok ::
  "(nat \<Rightarrow> nat \<Rightarrow> nat \<Rightarrow> 'a BareSliceMatrix \<Rightarrow> 'a BareSliceMatrix \<Rightarrow> 'a BareSliceMatrix
     \<Rightarrow> 'a BareSliceMatrix)
   \<Rightarrow> 'a pfunc_abt list \<Rightarrow> 'a matmat_extern \<Rightarrow> bool" where
  "pfunc_abt_table_ok krn tbl intern \<longleftrightarrow>
     length tbl = 25
   \<and> (\<forall>n\<le>24. \<forall>ha hb a b c. (tbl ! n) ha hb a b c = krn ha n hb a b c)
   \<and> (\<forall>a b c. 24 < Width a \<longrightarrow>
         intern a b c = krn (Height a) (Width a) (Height b) (Elems a) (Elems b) c)"

text \<open>Modelled from the spec: a routine without a table computes its contract.\<close>

definition matmat_extern_ok ::
  "(nat \<Rightarrow> nat \<Rightarrow> nat \<Rightarrow> 'a BareSliceMatrix \<Rightarrow> 'a BareSliceMatrix \<Rightarrow> 'a BareSliceMatrix
     \<Rightarrow> 'a BareSliceMatrix)
   \<Rightarrow> 'a matmat_extern \<Rightarrow> bool" where
  "matmat_extern_ok krn f \<longleftrightarrow>
     (\<forall>a b c. f a b c = krn (Height a) (Width a) (Height b) (Elems a) (Elems b) c)"

text \<open>Modelled from the spec: every table and routine \<open>NgGEMM\<close> reaches is as the spec asks.\<close>

definition externs_ok :: "'a::comm_ring_1 ngblas_externs \<Rightarrow> bool" where
  "externs_ok E \<longleftrightarrow>
     pmultABW_table_ok (kernel_AB False True) (ext_dispatch_multAB E)
   \<and> pmultABW_table_ok (kernel_AB False False) (ext_dispatch_minusmultAB E)
   \<and> pmultABW_table_ok (kernel_AB True True) (ext_dispatch_addAB E)
   \<and> pmultABW_table_ok (kernel_AB True False) (ext_dispatch_subAB E)
   \<and> (\<forall>ADD POS. pmultABW_table_ok (kernel_AtB ADD POS) (ext_dispatch_atb E ADD POS))
   \<and> pfunc_abt_table_ok (kernel_ABt False True) (ext_dispatch_abt E) (ext_MultABt_intern E)
   \<and> pfunc_abt_table_ok (kernel_ABt True True) (ext_dispatch_addabt E) (ext_AddABt_intern E)
   \<and> matmat_extern_ok (kernel_ABt False False) (ext_MinusMultABt E)
   \<and> matmat_extern_ok (kernel_ABt True False) (ext_SubABt E)"

text \<open>
  Modelled from the spec: tables and routines that hold the contract itself, for running
  the entry points on concrete inputs.
\<close>

definition generic_externs :: "'a::comm_ring_1 ngblas_externs" where
  "generic_externs =
     \<lparr>ext_dispatch_multAB = replicate 14 (kernel_AB False True),
      ext_dispatch_minusmultAB = replicate 14 (kernel_AB False False),
      ext_dispatch_addAB = replicate 14 (kernel_AB True True),
      ext_dispatch_subAB = replicate 14 (kernel_AB True False),
      ext_dispatch_atb = (\<lambda>ADD POS. replicate 14 (kernel_AtB ADD POS)),
      ext_dispatch_abt = map (\<lambda>n ha hb. kernel_ABt False True ha n hb) [0..<25],
      ext_dispatch_addabt = map (\<lambda>n ha hb. kernel_ABt True True ha n hb) [0..<25],
      ext_MultABt_intern =
        (\<lambda>a b. kernel_ABt False True (Height a) (Width a) (Height b) (Elems a) (Elems b)),
      ext_AddABt_intern =
        (\<lambda>a b. kernel_ABt True True (Height a) (Width a) (Height b) (Elems a) (Elems b)),
      ext_MinusMultABt =
        (\<lambda>a b. kernel_ABt False False (Height a) (Width a) (Height b) (Elems a) (Elems b)),
      ext_SubABt =
        (\<lambda>a b. kernel_ABt True False (Height a) (Width a) (Height b) (Elems a) (Elems b))\<rparr>"

section \<open>Diagonal scaling\<close>

text \<open>
  Modelled from the spec: \<^verbatim>\<open>ScaleCols\<close> is only declared in the header (one overload per
  order of \<open>a\<close>). The spec gives its effect: column \<open>j\<close> of \<open>A\<close> is multiplied by \<open>diag[j]\<close>,
  in place. \<^verbatim>\<open>BareSliceVector<double> diag\<close> has no size; the columns of \<open>a\<close> say which
  entries are used.
\<close>

definition ScaleCols :: "'a::times SliceMatrix \<Rightarrow> 'a BareSliceVector \<Rightarrow> 'a SliceMatrix" where
  "ScaleCols a diag =
     a\<lparr>Elems := (\<lambda>i j. if i < Height a \<and> j < Width a then Elems a i j * diag j
                        else Elems a i j)\<rparr>"

text \<open>
  \<^verbatim>\<open>template <ORDERING ord> ScaleRows (SliceMatrix<double,ord> a, BareSliceVector<double> diag)
  { ScaleCols (Trans(a), diag); }\<close>
  The call writes through the transposed view; the caller's \<open>a\<close> is the transposed view of
  what \<open>ScaleCols\<close> left.
\<close>

definition ScaleRows :: "'a::times SliceMatrix \<Rightarrow> 'a BareSliceVector \<Rightarrow> 'a SliceMatrix" where
  "ScaleRows a diag = Trans (ScaleCols (Trans a) diag)"

section \<open>Multi-vector operations\<close>

text \<open>
  Modelled from the spec: \<^verbatim>\<open>PairwiseInnerProduct\<close> and \<^verbatim>\<open>MultiVectorAdd\<close> are only
  declared in the header, with the comments \<^verbatim>\<open>ip(i,j) = InnerProduct(x_i, y_j)\<close> and
  \<^verbatim>\<open>x_i += sum_j a(i,j) y_j\<close>. A collection \<^verbatim>\<open>FlatArray<double*>\<close> is the list of its
  vectors, each the accessor of a buffer of \<open>n\<close> elements; the buffers of the target and
  of the source are taken to be separate, so the sums read the source as it was before
  the call. \<open>PairwiseInnerProduct\<close> returns the matrix \<open>ip\<close> and writes no vector;
  \<open>MultiVectorAdd\<close> returns the collection \<open>x\<close> after the update.
\<close>

definition PairwiseInnerProduct ::
  "nat \<Rightarrow> (nat \<Rightarrow> 'a::semiring_0) list \<Rightarrow> (nat \<Rightarrow> 'a) list \<Rightarrow> 'a BareSliceMatrix
   \<Rightarrow> 'a BareSliceMatrix" where
  "PairwiseInnerProduct n x y ip =
     (\<lambda>i j. if i < length x \<and> j < length y then (\<Sum>k<n. (x ! i) k * (y ! j) k) else ip i j)"

text \<open>
  Modelled from the spec: \<^verbatim>\<open>MultiVectorAdd\<close>, \<open>x_i += sum_j a(i,j) y_j\<close> on the \<open>n\<close>
  elements of every vector.
\<close>

definition MultiVectorAdd ::
  "nat \<Rightarrow> (nat \<Rightarrow> 'a::semiring_0) list \<Rightarrow> (nat \<Rightarrow> 'a) list \<Rightarrow> 'a BareSliceMatrix
   \<Rightarrow> (nat \<Rightarrow> 'a) list" where
  "MultiVectorAdd n x y a =
     map (\<lambda>i k. if k < n then (x ! i) k + (\<Sum>j<length y. a i j * (y ! j) k) else (x ! i) k)
       [0..<length x]"

text \<open>The identity coefficient matrix.\<close>

definition identity_coefficients :: "'a::zero_neq_one BareSliceMatrix" where
  "identity_coefficients = (\<lambda>i j. if i = j then 1 else 0)"

section \<open>Schur complement\<close>

text \<open>
  A \<^verbatim>\<open>BitArray\<close> is read through its test \<^verbatim>\<open>used[i]\<close>; \<^verbatim>\<open>FlatMatrix<double>\<close> is a
  row-major matrix view with its extents.
\<close>

type_synonym BitArray = "nat \<Rightarrow> bool"

type_synonym 'a FlatMatrix = "'a SliceMatrix"

text \<open>
  Modelled from the spec: \<^verbatim>\<open>CalcSchurComplement\<close> is only declared in
  \<^verbatim>\<open>eigensystem.hpp\<close>. The spec partitions the indices of \<open>A\<close> into the eliminated ones
  (marked in \<open>used\<close>) and the kept ones (unmarked).
\<close>

definition eliminated_dofs :: "'a FlatMatrix \<Rightarrow> BitArray \<Rightarrow> nat list" where
  "eliminated_dofs a used = filter used [0..<Height a]"

text \<open>Modelled from the spec: the unmarked indices, which are kept.\<close>

definition kept_dofs :: "'a FlatMatrix \<Rightarrow> BitArray \<Rightarrow> nat list" where
  "kept_dofs a used = filter (\<lambda>i. \<not> used i) [0..<Height a]"

text \<open>
  Modelled from the spec: the elimination is a progression of rank-1 updates. One update
  with the pivot at row \<open>r\<close> and column \<open>c\<close> subtracts column \<open>c\<close> times row \<open>r\<close> over the
  pivot element.
\<close>

definition eliminate_at :: "nat \<Rightarrow> nat \<Rightarrow> 'a::field BareSliceMatrix \<Rightarrow> 'a BareSliceMatrix" where
  "eliminate_at r c m = (\<lambda>i j. m i j - m i c * m r j / m r c)"

text \<open>
  Modelled from the spec: the result is fixed for every invertible eliminated block, and
  left open for a singular one. So an update takes as its pivot the first nonzero entry in
  what is left of the eliminated block (rows \<open>rs\<close>, columns \<open>cs\<close>); it never divides by
  zero.
\<close>

definition find_pivot :: "'a::field BareSliceMatrix \<Rightarrow> nat list \<Rightarrow> nat list \<Rightarrow> (nat \<times> nat) option" where
  "find_pivot m rs cs = find (\<lambda>(r, c). m r c \<noteq> 0) (List.product rs cs)"

text \<open>
  Modelled from the spec: one update per eliminated index. When what is left of the block
  has no nonzero entry, the block is singular and there is no result (\<open>None\<close>).
\<close>

fun eliminate_block ::
  "nat \<Rightarrow> nat list \<Rightarrow> nat list \<Rightarrow> 'a::field BareSliceMatrix \<Rightarrow> 'a BareSliceMatrix option" where
  "eliminate_block 0 rs cs m = Some m"
| "eliminate_block (Suc n) rs cs m =
     (case find_pivot m rs cs of
        None \<Rightarrow> None
      | Some (r, c) \<Rightarrow> eliminate_block n (remove1 r rs) (remove1 c cs) (eliminate_at r c m))"

text \<open>
  Modelled from the spec: \<^verbatim>\<open>CalcSchurComplement\<close>. \<open>S\<close> is a view passed by value: the
  call cannot change its extents, it writes the entries of the kept block, which has as
  many rows and columns as there are kept indices. With no kept index there is no entry
  to compute and nothing is written. The scratch arena has no part in the result and is
  left out.
\<close>

definition CalcSchurComplement ::
  "'a::field FlatMatrix \<Rightarrow> 'a FlatMatrix \<Rightarrow> BitArray \<Rightarrow> 'a FlatMatrix option" where
  "CalcSchurComplement a s used =
     (let kept = kept_dofs a used; es = eliminated_dofs a used
      in if kept = [] then Some s
         else case eliminate_block (length es) es es (Elems a) of
                None \<Rightarrow> None
              | Some m \<Rightarrow>
                  Some (s\<lparr>Elems := (\<lambda>i j. if i < length kept \<and> j < length kept
                                           then m (kept ! i) (kept ! j) else Elems s i j)\<rparr>))"

text \<open>
  For the proofs: the block of \<open>m\<close> with rows \<open>R\<close> and columns \<open>C\<close> has a trivial kernel.
\<close>

definition regular :: "'a::field BareSliceMatrix \<Rightarrow> nat set \<Rightarrow> nat set \<Rightarrow> bool" where
  "regular m R C \<longleftrightarrow>
     (\<forall>v. (\<forall>r\<in>R. (\<Sum>c\<in>C. m r c * v c) = 0) \<longrightarrow> (\<forall>c\<in>C. v c = 0))"

section \<open>Properties of the vector primitives\<close>

lemma CopyVector_loop_Size: "Size (CopyVector_loop is src dest) = Size dest"
  by (induction "is" arbitrary: dest) (simp_all add: vec_assign_def)

lemma CopyVector_loop_Data:
  "Data (CopyVector_loop is src dest) i = (if i \<in> set is then Data src i else Data dest i)"
  by (induction "is" arbitrary: dest) (simp_all add: vec_assign_def)

lemma AddVector_loop_Size: "Size (AddVector_loop is alpha src dest) = Size dest"
  by (induction "is" arbitrary: dest) (simp_all add: vec_assign_def)

lemma AddVector_loop_Data:
  "distinct is \<Longrightarrow>
   Data (AddVector_loop is alpha src dest) i =
     (if i \<in> set is then Data dest i + alpha * Data src i else Data dest i)"
  by (induction "is" arbitrary: dest) (auto simp: vec_assign_def)

lemma CopyVector_Size: "Size (CopyVector src dest) = Size dest"
  by (simp add: CopyVector_def CopyVector_loop_Size)

lemma CopyVector_Data:
  "Data (CopyVector src dest) i = (if i < Size dest then Data src i else Data dest i)"
  by (simp add: CopyVector_def CopyVector_loop_Data)

lemma AddVector_Size: "Size (AddVector alpha src dest) = Size dest"
  by (simp add: AddVector_def AddVector_loop_Size)

lemma AddVector_Data:
  "Data (AddVector alpha src dest) i =
     (if i < Size dest then Data dest i + alpha * Data src i else Data dest i)"
  by (simp add: AddVector_def AddVector_loop_Data)

lemma FlatVector_eqI:
  "Size v = Size w \<Longrightarrow> (\<And>i. Data v i = Data w i) \<Longrightarrow> (v :: 'a FlatVector) = w"
  by (cases v, cases w) (simp add: fun_eq_iff)

text \<open>
  C10. The generic \<open>CopyVector\<close> and \<open>AddVector\<close> iterate over the index range of the
  destination only. The size of \<open>dest\<close> is kept; exactly the elements of \<open>dest\<close> below
  \<open>Size dest\<close> are written (\<open>dest[i] = src[i]\<close>) or updated (\<open>dest[i] += alpha*src[i]\<close>),
  everything at or beyond \<open>Size dest\<close> keeps its value; and the result depends on \<open>src\<close>
  only through the elements below \<open>Size dest\<close>: two sources of any sizes that agree
  there give the same result, so the trailing elements of a longer source are never read.
\<close>

theorem CopyVector_AddVector_dest_range:
  fixes src src' dest :: "'a::{plus,times} FlatVector"
  shows "Size (CopyVector src dest) = Size dest
       \<and> (\<forall>i. Data (CopyVector src dest) i = (if i < Size dest then Data src i else Data dest i))
       \<and> Size (AddVector alpha src dest) = Size dest
       \<and> (\<forall>i. Data (AddVector alpha src dest) i =
               (if i < Size dest then Data dest i + alpha * Data src i else Data dest i))
       \<and> ((\<forall>i<Size dest. Data src' i = Data src i) \<longrightarrow>
            CopyVector src' dest = CopyVector src dest
          \<and> AddVector alpha src' dest = AddVector alpha src dest)"
proof -
  have "CopyVector src' dest = CopyVector src dest
      \<and> AddVector alpha src' dest = AddVector alpha src dest"
    if agree: "\<forall>i<Size dest. Data src' i = Data src i"
  proof
    show "CopyVector src' dest = CopyVector src dest"
      by (rule FlatVector_eqI) (simp_all add: CopyVector_Size CopyVector_Data agree)
    show "AddVector alpha src' dest = AddVector alpha src dest"
      by (rule FlatVector_eqI) (simp_all add: AddVector_Size AddVector_Data agree)
  qed
  then show ?thesis
    by (simp add: CopyVector_Size CopyVector_Data AddVector_Size AddVector_Data)
qed

text \<open>
  A source of five elements and one of three that agree on the first two, copied and
  added into a destination of size two.
\<close>

theorem CopyVector_AddVector_dest_range_witness:
  "CopyVector \<lparr>Size = 5, Data = (\<lambda>i. if i < 2 then int i + 10 else 99)\<rparr>
        \<lparr>Size = 2, Data = (\<lambda>i. 0::int)\<rparr>
     = CopyVector \<lparr>Size = 3, Data = (\<lambda>i. int i + 10)\<rparr> \<lparr>Size = 2, Data = (\<lambda>i. 0::int)\<rparr>
   \<and> AddVector 7 \<lparr>Size = 5, Data = (\<lambda>i. if i < 2 then int i + 10 else 99)\<rparr>
        \<lparr>Size = 2, Data = (\<lambda>i. 0::int)\<rparr>
     = AddVector 7 \<lparr>Size = 3, Data = (\<lambda>i. int i + 10)\<rparr> \<lparr>Size = 2, Data = (\<lambda>i. 0::int)\<rparr>
   \<and> Data (CopyVector \<lparr>Size = 5, Data = (\<lambda>i. if i < 2 then int i + 10 else 99)\<rparr>
        \<lparr>Size = 2, Data = (\<lambda>i. 0::int)\<rparr>) 1 = 11
   \<and> Data (AddVector 7 \<lparr>Size = 5, Data = (\<lambda>i. if i < 2 then int i + 10 else 99)\<rparr>
        \<lparr>Size = 2, Data = (\<lambda>i. 0::int)\<rparr>) 2 = 0"
  using CopyVector_AddVector_dest_range
    [of "\<lparr>Size = 3, Data = (\<lambda>i. int i + 10)\<rparr>" "\<lparr>Size = 2, Data = (\<lambda>i. 0::int)\<rparr>" 7
        "\<lparr>Size = 5, Data = (\<lambda>i. if i < 2 then int i + 10 else 99)\<rparr>"]
  by simp

section \<open>Table indices stay in bounds\<close>

lemma table_entry_clamped:
  "tbl \<noteq> [] \<Longrightarrow>
   table_entry tbl (min n (length tbl - 1)) = Some (tbl ! min n (length tbl - 1))"
  by (cases tbl) (simp_all add: table_entry_def min_def)

lemma clamped_less: "tbl \<noteq> [] \<Longrightarrow> min n (length tbl - 1) < length tbl"
  by (cases tbl) (simp_all add: min_def)

text \<open>
  C9. With the tables at their declared extents (26, 25, 13, 13 and 14 entries), every
  table-dispatched entry point computes its index as \<open>min size (length table - 1)\<close>; that
  index is below the table's length for every input size, zero and sizes beyond the
  specialised range included, so no entry point indexes its table out of bounds (none
  returns \<open>None\<close>), and the routine invoked is the table's entry at the clamped index. The
  matrix-matrix entry points return before any table access when \<open>a\<close> has height zero or
  \<open>b\<close> has width zero.
\<close>

theorem dispatch_index_in_bounds:
  assumes "length dispatch_matvec = 26" and "length dispatch_addmatvec = 25"
    and "length dispatch_mattransvec = 13" and "length dispatch_addmattransvec = 13"
    and "length dispatch_multAB = 14" and "length dispatch_minusmultAB = 14"
    and "length dispatch_addAB = 14" and "length dispatch_subAB = 14"
    and "length ptrs = 14"
  shows "min (Size x) (length dispatch_matvec - 1) < length dispatch_matvec
       \<and> MultMatVec dispatch_matvec a x y
           = Some ((dispatch_matvec ! min (Size x) 25) a x y)
       \<and> min (Size x) (length dispatch_addmatvec - 1) < length dispatch_addmatvec
       \<and> MultAddMatVec dispatch_addmatvec s a x y
           = Some ((dispatch_addmatvec ! min (Size x) 24) s a x y)
       \<and> min (Size x) (length dispatch_mattransvec - 1) < length dispatch_mattransvec
       \<and> MultMatTransVec dispatch_mattransvec a x y
           = Some ((dispatch_mattransvec ! min (Size x) 12) a x y)
       \<and> min (Size x) (length dispatch_addmattransvec - 1) < length dispatch_addmattransvec
       \<and> MultAddMatTransVec dispatch_addmattransvec s a x y
           = Some ((dispatch_addmattransvec ! min (Size x) 12) s a x y)
       \<and> min (Width A) (length dispatch_multAB - 1) < length dispatch_multAB
       \<and> MultMatMat dispatch_multAB A B C
           = (if Height A = 0 \<or> Width B = 0 then Some C
              else Some (C\<lparr>Elems := (dispatch_multAB ! min (Width A) 13)
                            (Height A) (Width A) (Width B) (Elems A) (Elems B) (Elems C)\<rparr>))
       \<and> min (Width A) (length dispatch_minusmultAB - 1) < length dispatch_minusmultAB
       \<and> MinusMultAB dispatch_minusmultAB A B C
           = (if Height A = 0 \<or> Width B = 0 then Some C
              else Some (C\<lparr>Elems := (dispatch_minusmultAB ! min (Width A) 13)
                            (Height A) (Width A) (Width B) (Elems A) (Elems B) (Elems C)\<rparr>))
       \<and> min (Width A) (length dispatch_addAB - 1) < length dispatch_addAB
       \<and> AddAB dispatch_addAB A B C
           = (if Height A = 0 \<or> Width B = 0 then Some C
              else Some (C\<lparr>Elems := (dispatch_addAB ! min (Width A) 13)
                            (Height A) (Width A) (Width B) (Elems A) (Elems B) (Elems C)\<rparr>))
       \<and> min (Width A) (length dispatch_subAB - 1) < length dispatch_subAB
       \<and> SubAB dispatch_subAB A B C
           = (if Height A = 0 \<or> Width B = 0 then Some C
              else Some (C\<lparr>Elems := (dispatch_subAB ! min (Width A) 13)
                            (Height A) (Width A) (Width B) (Elems A) (Elems B) (Elems C)\<rparr>))
       \<and> min (Width A) (length ptrs - 1) < length ptrs
       \<and> MatMat_AtB ptrs A B (Elems C)
           = (if Height A = 0 \<or> Width B = 0 then Some (Elems C)
              else Some ((ptrs ! min (Width A) 13)
                           (Height A) (Width A) (Width B) (Elems A) (Elems B) (Elems C)))"
proof -
  have ne: "dispatch_matvec \<noteq> []" "dispatch_addmatvec \<noteq> []" "dispatch_mattransvec \<noteq> []"
    "dispatch_addmattransvec \<noteq> []" "dispatch_multAB \<noteq> []" "dispatch_minusmultAB \<noteq> []"
    "dispatch_addAB \<noteq> []" "dispatch_subAB \<noteq> []" "ptrs \<noteq> []"
    using assms by auto
  have mv: "MultMatVec dispatch_matvec a x y = Some ((dispatch_matvec ! min (Size x) 25) a x y)"
    using table_entry_clamped [OF ne(1), of "Size x"] assms(1) by (simp add: MultMatVec_def)
  have amv: "MultAddMatVec dispatch_addmatvec s a x y
      = Some ((dispatch_addmatvec ! min (Size x) 24) s a x y)"
    using table_entry_clamped [OF ne(2), of "Size x"] assms(2) by (simp add: MultAddMatVec_def)
  have mtv: "MultMatTransVec dispatch_mattransvec a x y
      = Some ((dispatch_mattransvec ! min (Size x) 12) a x y)"
    using table_entry_clamped [OF ne(3), of "Size x"] assms(3)
    by (simp add: MultMatTransVec_def)
  have amtv: "MultAddMatTransVec dispatch_addmattransvec s a x y
      = Some ((dispatch_addmattransvec ! min (Size x) 12) s a x y)"
    using table_entry_clamped [OF ne(4), of "Size x"] assms(4)
    by (simp add: MultAddMatTransVec_def)
  have mm: "MultMatMat dispatch_multAB A B C
      = (if Height A = 0 \<or> Width B = 0 then Some C
         else Some (C\<lparr>Elems := (dispatch_multAB ! min (Width A) 13)
                       (Height A) (Width A) (Width B) (Elems A) (Elems B) (Elems C)\<rparr>))"
    using table_entry_clamped [OF ne(5), of "Width A"] assms(5) by (simp add: MultMatMat_def)
  have mmm: "MinusMultAB dispatch_minusmultAB A B C
      = (if Height A = 0 \<or> Width B = 0 then Some C
         else Some (C\<lparr>Elems := (dispatch_minusmultAB ! min (Width A) 13)
                       (Height A) (Width A) (Width B) (Elems A) (Elems B) (Elems C)\<rparr>))"
    using table_entry_clamped [OF ne(6), of "Width A"] assms(6) by (simp add: MinusMultAB_def)
  have ab: "AddAB dispatch_addAB A B C
      = (if Height A = 0 \<or> Width B = 0 then Some C
         else Some (C\<lparr>Elems := (dispatch_addAB ! min (Width A) 13)
                       (Height A) (Width A) (Width B) (Elems A) (Elems B) (Elems C)\<rparr>))"
    using table_entry_clamped [OF ne(7), of "Width A"] assms(7) by (simp add: AddAB_def)
  have sb: "SubAB dispatch_subAB A B C
      = (if Height A = 0 \<or> Width B = 0 then Some C
         else Some (C\<lparr>Elems := (dispatch_subAB ! min (Width A) 13)
                       (Height A) (Width A) (Width B) (Elems A) (Elems B) (Elems C)\<rparr>))"
    using table_entry_clamped [OF ne(8), of "Width A"] assms(8) by (simp add: SubAB_def)
  have atb: "MatMat_AtB ptrs A B (Elems C)
      = (if Height A = 0 \<or> Width B = 0 then Some (Elems C)
         else Some ((ptrs ! min (Width A) 13)
                      (Height A) (Width A) (Width B) (Elems A) (Elems B) (Elems C)))"
    using table_entry_clamped [OF ne(9), of "Width A"] assms(9) by (simp add: MatMat_AtB_def)
  show ?thesis
    using mv amv mtv amtv mm mmm ab sb atb
      clamped_less [OF ne(1)] clamped_less [OF ne(2)] clamped_less [OF ne(3)]
      clamped_less [OF ne(4)] clamped_less [OF ne(5)] clamped_less [OF ne(6)]
      clamped_less [OF ne(7)] clamped_less [OF ne(8)] clamped_less [OF ne(9)]
    by blast
qed

text \<open>
  Tables whose entry \<open>n\<close> writes the number \<open>n\<close>, so the result shows which entry ran: a
  vector of length 100 runs the last entry (25, 24, 12, 12), a matrix of width 0 entry 0,
  and a matrix of width 40 entry 13.
\<close>

theorem dispatch_index_in_bounds_witness:
  "MultMatVec (map (\<lambda>n a x y. y\<lparr>Data := (\<lambda>i. int n)\<rparr>) [0..<26]) (\<lambda>i j. 0)
      \<lparr>Size = 100, Data = (\<lambda>i. 0)\<rparr> \<lparr>Size = 1, Data = (\<lambda>i. 0)\<rparr>
     = Some \<lparr>Size = 1, Data = (\<lambda>i. 25)\<rparr>
   \<and> MultAddMatVec (map (\<lambda>n s a x y. y\<lparr>Data := (\<lambda>i. int n)\<rparr>) [0..<25]) 1 (\<lambda>i j. 0)
      \<lparr>Size = 100, Data = (\<lambda>i. 0)\<rparr> \<lparr>Size = 1, Data = (\<lambda>i. 0)\<rparr>
     = Some \<lparr>Size = 1, Data = (\<lambda>i. 24)\<rparr>
   \<and> MultMatTransVec (map (\<lambda>n a x y. y\<lparr>Data := (\<lambda>i. int n)\<rparr>) [0..<13]) (\<lambda>i j. 0)
      \<lparr>Size = 100, Data = (\<lambda>i. 0)\<rparr> \<lparr>Size = 1, Data = (\<lambda>i. 0)\<rparr>
     = Some \<lparr>Size = 1, Data = (\<lambda>i. 12)\<rparr>
   \<and> MultAddMatTransVec (map (\<lambda>n s a x y. y\<lparr>Data := (\<lambda>i. int n)\<rparr>) [0..<13]) 1 (\<lambda>i j. 0)
      \<lparr>Size = 100, Data = (\<lambda>i. 0)\<rparr> \<lparr>Size = 1, Data = (\<lambda>i. 0)\<rparr>
     = Some \<lparr>Size = 1, Data = (\<lambda>i. 12)\<rparr>
   \<and> MultMatMat (map (\<lambda>n ha wa wb a b c i j. int n) [0..<14])
      \<lparr>Height = 1, Width = 0, Ord = RowMajor, Elems = (\<lambda>i j. 0)\<rparr>
      \<lparr>Height = 0, Width = 1, Ord = RowMajor, Elems = (\<lambda>i j. 0)\<rparr>
      \<lparr>Height = 1, Width = 1, Ord = RowMajor, Elems = (\<lambda>i j. 5)\<rparr>
     = Some \<lparr>Height = 1, Width = 1, Ord = RowMajor, Elems = (\<lambda>i j. 0)\<rparr>
   \<and> MatMat_AtB (map (\<lambda>n ha wa wb a b c i j. int n) [0..<14])
      \<lparr>Height = 1, Width = 40, Ord = RowMajor, Elems = (\<lambda>i j. 0)\<rparr>
      \<lparr>Height = 1, Width = 1, Ord = RowMajor, Elems = (\<lambda>i j. 0)\<rparr>
      (\<lambda>i j. 5)
     = Some (\<lambda>i j. 13)"
  using dispatch_index_in_bounds
    [of "map (\<lambda>n a x y. y\<lparr>Data := (\<lambda>i. int n)\<rparr>) [0..<26]"
        "map (\<lambda>n s a x y. y\<lparr>Data := (\<lambda>i. int n)\<rparr>) [0..<25]"
        "map (\<lambda>n a x y. y\<lparr>Data := (\<lambda>i. int n)\<rparr>) [0..<13]"
        "map (\<lambda>n s a x y. y\<lparr>Data := (\<lambda>i. int n)\<rparr>) [0..<13]"
        "map (\<lambda>n ha wa wb a b c i j. int n) [0..<14]"
        "map (\<lambda>n ha wa wb a b c i j. int n) [0..<14]"
        "map (\<lambda>n ha wa wb a b c i j. int n) [0..<14]"
        "map (\<lambda>n ha wa wb a b c i j. int n) [0..<14]"
        "map (\<lambda>n ha wa wb a b c i j. int n) [0..<14]"
        "\<lparr>Size = 100, Data = (\<lambda>i. 0)\<rparr>" "\<lambda>i j. 0" "\<lparr>Size = 1, Data = (\<lambda>i. 0)\<rparr>" 1
        "\<lparr>Height = 1, Width = 0, Ord = RowMajor, Elems = (\<lambda>i j. 0)\<rparr>"
        "\<lparr>Height = 0, Width = 1, Ord = RowMajor, Elems = (\<lambda>i j. 0)\<rparr>"
        "\<lparr>Height = 1, Width = 1, Ord = RowMajor, Elems = (\<lambda>i j. 5)\<rparr>"]
    dispatch_index_in_bounds
    [of "map (\<lambda>n a x y. y\<lparr>Data := (\<lambda>i. int n)\<rparr>) [0..<26]"
        "map (\<lambda>n s a x y. y\<lparr>Data := (\<lambda>i. int n)\<rparr>) [0..<25]"
        "map (\<lambda>n a x y. y\<lparr>Data := (\<lambda>i. int n)\<rparr>) [0..<13]"
        "map (\<lambda>n s a x y. y\<lparr>Data := (\<lambda>i. int n)\<rparr>) [0..<13]"
        "map (\<lambda>n ha wa wb a b c i j. int n) [0..<14]"
        "map (\<lambda>n ha wa wb a b c i j. int n) [0..<14]"
        "map (\<lambda>n ha wa wb a b c i j. int n) [0..<14]"
        "map (\<lambda>n ha wa wb a b c i j. int n) [0..<14]"
        "map (\<lambda>n ha wa wb a b c i j. int n) [0..<14]"
        "\<lparr>Size = 100, Data = (\<lambda>i. 0)\<rparr>" "\<lambda>i j. 0" "\<lparr>Size = 1, Data = (\<lambda>i. 0)\<rparr>" 1
        "\<lparr>Height = 1, Width = 40, Ord = RowMajor, Elems = (\<lambda>i j. 0)\<rparr>"
        "\<lparr>Height = 1, Width = 1, Ord = RowMajor, Elems = (\<lambda>i j. 0)\<rparr>"
        "\<lparr>Height = 1, Width = 1, Ord = RowMajor, Elems = (\<lambda>i j. 5)\<rparr>"]
  by simp

section \<open>The early return of the matrix-matrix entry points\<close>

text \<open>
  The claim that any zero-sized height or width of an operand makes the call a no-op fails
  for a zero contraction dimension: with \<open>a\<close> of shape \<open>1\<times>0\<close>, \<open>b\<close> of shape \<open>0\<times>1\<close> and \<open>c\<close>
  holding 5, \<open>MultMatMat\<close> does not return early. It runs table entry 0: a table whose
  entries would write 7 leaves 7 in \<open>c\<close>, and a table whose entries compute \<open>C := A\<cdot>B\<close>
  overwrites \<open>c\<close> with the empty sum 0.
\<close>

theorem MultMatMat_zero_width_counterexample:
  "MultMatMat (replicate 14 (\<lambda>ha wa wb a b c i j. 7))
        \<lparr>Height = 1, Width = 0, Ord = RowMajor, Elems = (\<lambda>i j. 0::int)\<rparr>
        \<lparr>Height = 0, Width = 1, Ord = RowMajor, Elems = (\<lambda>i j. 0)\<rparr>
        \<lparr>Height = 1, Width = 1, Ord = RowMajor, Elems = (\<lambda>i j. 5)\<rparr>
     = Some \<lparr>Height = 1, Width = 1, Ord = RowMajor, Elems = (\<lambda>i j. 7)\<rparr>
   \<and> map_option (\<lambda>r. Elems r 0 0)
     (MultMatMat (replicate 14 (kernel_AB False True))
        \<lparr>Height = 1, Width = 0, Ord = RowMajor, Elems = (\<lambda>i j. 0::int)\<rparr>
        \<lparr>Height = 0, Width = 1, Ord = RowMajor, Elems = (\<lambda>i j. 0)\<rparr>
        \<lparr>Height = 1, Width = 1, Ord = RowMajor, Elems = (\<lambda>i j. 5)\<rparr>) = Some 0
   \<and> MultMatMat (replicate 14 (kernel_AB False True))
        \<lparr>Height = 1, Width = 0, Ord = RowMajor, Elems = (\<lambda>i j. 0::int)\<rparr>
        \<lparr>Height = 0, Width = 1, Ord = RowMajor, Elems = (\<lambda>i j. 0)\<rparr>
        \<lparr>Height = 1, Width = 1, Ord = RowMajor, Elems = (\<lambda>i j. 5)\<rparr>
     \<noteq> Some \<lparr>Height = 1, Width = 1, Ord = RowMajor, Elems = (\<lambda>i j. 5)\<rparr>"
  by (simp add: MultMatMat_def table_entry_def kernel_AB_def policy_def fun_eq_iff)

text \<open>
  C2, amended. For each of \<open>MultMatMat\<close>, \<open>MinusMultAB\<close>, \<open>AddAB\<close> and \<open>SubAB\<close>: when \<open>a\<close>
  has height zero or \<open>b\<close> has width zero (the result block is empty), the call returns at
  once, whatever the table holds, and \<open>c\<close> is unchanged. A zero width of \<open>a\<close> alone is not
  such a case: with the table at its declared extent the call runs table entry 0 on the
  three extents.
\<close>

theorem GEMM_empty_result_noop:
  "(Height a = 0 \<or> Width b = 0 \<longrightarrow>
       MultMatMat dispatch_multAB a b c = Some c
     \<and> MinusMultAB dispatch_minusmultAB a b c = Some c
     \<and> AddAB dispatch_addAB a b c = Some c
     \<and> SubAB dispatch_subAB a b c = Some c)
   \<and> (Height a \<noteq> 0 \<and> Width b \<noteq> 0 \<and> Width a = 0
      \<and> length dispatch_multAB = 14 \<and> length dispatch_minusmultAB = 14
      \<and> length dispatch_addAB = 14 \<and> length dispatch_subAB = 14 \<longrightarrow>
       MultMatMat dispatch_multAB a b c
         = Some (c\<lparr>Elems := (dispatch_multAB ! 0) (Height a) 0 (Width b)
                              (Elems a) (Elems b) (Elems c)\<rparr>)
     \<and> MinusMultAB dispatch_minusmultAB a b c
         = Some (c\<lparr>Elems := (dispatch_minusmultAB ! 0) (Height a) 0 (Width b)
                              (Elems a) (Elems b) (Elems c)\<rparr>)
     \<and> AddAB dispatch_addAB a b c
         = Some (c\<lparr>Elems := (dispatch_addAB ! 0) (Height a) 0 (Width b)
                              (Elems a) (Elems b) (Elems c)\<rparr>)
     \<and> SubAB dispatch_subAB a b c
         = Some (c\<lparr>Elems := (dispatch_subAB ! 0) (Height a) 0 (Width b)
                              (Elems a) (Elems b) (Elems c)\<rparr>))"
  by (simp add: MultMatMat_def MinusMultAB_def AddAB_def SubAB_def table_entry_def)

text \<open>
  A \<open>0\<times>3\<close> matrix times a \<open>3\<times>2\<close> matrix, with tables that would overwrite \<open>c\<close> with 7 if
  they ran; and the \<open>1\<times>0\<close> case above, where entry 0 runs.
\<close>

theorem GEMM_empty_result_noop_witness:
  "MultMatMat (replicate 14 (\<lambda>ha wa wb a b c i j. 7))
       \<lparr>Height = 0, Width = 3, Ord = RowMajor, Elems = (\<lambda>i j. 1::int)\<rparr>
       \<lparr>Height = 3, Width = 2, Ord = RowMajor, Elems = (\<lambda>i j. 1)\<rparr>
       \<lparr>Height = 0, Width = 2, Ord = RowMajor, Elems = (\<lambda>i j. 5)\<rparr>
     = Some \<lparr>Height = 0, Width = 2, Ord = RowMajor, Elems = (\<lambda>i j. 5)\<rparr>
   \<and> SubAB (replicate 14 (\<lambda>ha wa wb a b c i j. 7))
       \<lparr>Height = 0, Width = 3, Ord = RowMajor, Elems = (\<lambda>i j. 1::int)\<rparr>
       \<lparr>Height = 3, Width = 2, Ord = RowMajor, Elems = (\<lambda>i j. 1)\<rparr>
       \<lparr>Height = 0, Width = 2, Ord = RowMajor, Elems = (\<lambda>i j. 5)\<rparr>
     = Some \<lparr>Height = 0, Width = 2, Ord = RowMajor, Elems = (\<lambda>i j. 5)\<rparr>
   \<and> MinusMultAB (replicate 14 (\<lambda>ha wa wb a b c i j. 7))
       \<lparr>Height = 1, Width = 0, Ord = RowMajor, Elems = (\<lambda>i j. 1::int)\<rparr>
       \<lparr>Height = 0, Width = 1, Ord = RowMajor, Elems = (\<lambda>i j. 1)\<rparr>
       \<lparr>Height = 1, Width = 1, Ord = RowMajor, Elems = (\<lambda>i j. 5)\<rparr>
     = Some \<lparr>Height = 1, Width = 1, Ord = RowMajor, Elems = (\<lambda>i j. 7)\<rparr>"
  using GEMM_empty_result_noop
    [of "\<lparr>Height = 0, Width = 3, Ord = RowMajor, Elems = (\<lambda>i j. 1::int)\<rparr>"
        "\<lparr>Height = 3, Width = 2, Ord = RowMajor, Elems = (\<lambda>i j. 1)\<rparr>"
        "replicate 14 (\<lambda>ha wa wb a b c i j. 7)"
        "\<lparr>Height = 0, Width = 2, Ord = RowMajor, Elems = (\<lambda>i j. 5)\<rparr>"
        "replicate 14 (\<lambda>ha wa wb a b c i j. 7)" "replicate 14 (\<lambda>ha wa wb a b c i j. 7)"
        "replicate 14 (\<lambda>ha wa wb a b c i j. 7)"]
    GEMM_empty_result_noop
    [of "\<lparr>Height = 1, Width = 0, Ord = RowMajor, Elems = (\<lambda>i j. 1::int)\<rparr>"
        "\<lparr>Height = 0, Width = 1, Ord = RowMajor, Elems = (\<lambda>i j. 1)\<rparr>"
        "replicate 14 (\<lambda>ha wa wb a b c i j. 7)"
        "\<lparr>Height = 1, Width = 1, Ord = RowMajor, Elems = (\<lambda>i j. 5)\<rparr>"
        "replicate 14 (\<lambda>ha wa wb a b c i j. 7)" "replicate 14 (\<lambda>ha wa wb a b c i j. 7)"
        "replicate 14 (\<lambda>ha wa wb a b c i j. 7)"]
  by simp

section \<open>The matrix-vector entry points against the reference\<close>













text \<open>
  A micro-kernel is right only for its own length: the one for length 2, given a vector of
  three ones and a row of ones, returns 2 where \<open>A\<cdot>x\<close> is 3. The entry points below are
  right because they pick the entry by the length of \<open>x\<close>.
\<close>

lemma matvec_short_other_length:
  "Data (matvec_short 2 (\<lambda>i j. 1) \<lparr>Size = 3, Data = (\<lambda>i. 1::int)\<rparr>
           \<lparr>Size = 1, Data = (\<lambda>i. 0)\<rparr>) 0 = 2
   \<and> Data (MultMatVec_generic (\<lambda>i j. 1) \<lparr>Size = 3, Data = (\<lambda>i. 1::int)\<rparr>
           \<lparr>Size = 1, Data = (\<lambda>i. 0)\<rparr>) 0 = 3"
  by (simp add: matvec_short_def MultMatVec_generic_def matvec_entry_def numeral_2_eq_2)



section \<open>The indirect variant\<close>

text \<open>
  The claim that \<open>MultAddMatTransVecIndirect\<close> dispatches on the length of the contracted
  vector fails: in \<open>y[ind[i]] += s * sum_j x[j]*A[j,i]\<close> the contracted vector is \<open>x\<close>, and
  the code takes the length of the output \<open>y\<close>. With a table whose entry \<open>n\<close> writes \<open>n\<close>
  and a fallback that writes \<open>-1\<close>: an \<open>x\<close> of length 30 with a \<open>y\<close> of length 2 runs
  table entry 2, not the fallback, and an \<open>x\<close> of length 2 with a \<open>y\<close> of length 30 runs
  the fallback, not table entry 2.
\<close>

theorem MultAddMatTransVecIndirect_key_counterexample:
  "MultAddMatTransVecIndirect
       (map (\<lambda>n s a x y ind. y\<lparr>Data := (\<lambda>i. int n)\<rparr>) [0..<25])
       (\<lambda>s a x y ind. y\<lparr>Data := (\<lambda>i. - 1)\<rparr>)
       1 (\<lambda>i j. 0) \<lparr>Size = 30, Data = (\<lambda>i. 0)\<rparr> \<lparr>Size = 2, Data = (\<lambda>i. 0)\<rparr> [0, 1]
     = Some \<lparr>Size = 2, Data = (\<lambda>i. 2)\<rparr>
   \<and> MultAddMatTransVecIndirect
       (map (\<lambda>n s a x y ind. y\<lparr>Data := (\<lambda>i. int n)\<rparr>) [0..<25])
       (\<lambda>s a x y ind. y\<lparr>Data := (\<lambda>i. - 1)\<rparr>)
       1 (\<lambda>i j. 0) \<lparr>Size = 2, Data = (\<lambda>i. 0)\<rparr> \<lparr>Size = 30, Data = (\<lambda>i. 0)\<rparr> [0, 1]
     = Some \<lparr>Size = 30, Data = (\<lambda>i. - 1)\<rparr>"
  by (simp add: MultAddMatTransVecIndirect_def table_entry_def)

text \<open>
  C6, amended. \<open>MultAddMatTransVecIndirect\<close> dispatches on the length of the output vector
  \<open>y\<close>: with the table at its declared extent of 25 it runs table entry \<open>Size y\<close> when
  \<open>Size y \<le> 24\<close> and the non-dispatched \<open>MultAddMatTransVecIndirect_intern\<close> for every
  larger size. If each table entry \<open>n\<close> agrees with
  \<open>y[ind[i]] += s * sum_j x[j]*A[j,i]\<close> on the inputs whose \<open>y\<close> has length \<open>n\<close>, and the
  fallback agrees with it on the inputs whose \<open>y\<close> is longer than 24, then so does the
  entry point on every input.
\<close>

theorem MultAddMatTransVecIndirect_dispatch:
  assumes "length dispatch_addmattransvecI = 25"
    and "\<forall>n\<le>24. \<forall>s a x y ind. Size y = n \<longrightarrow>
           R ((dispatch_addmattransvecI ! n) s a x y ind)
             (MultAddMatTransVecIndirect_generic s a x y ind)"
    and "\<forall>s a x y ind. 24 < Size y \<longrightarrow>
           R (MultAddMatTransVecIndirect_intern s a x y ind)
             (MultAddMatTransVecIndirect_generic s a x y ind)"
  shows "MultAddMatTransVecIndirect dispatch_addmattransvecI MultAddMatTransVecIndirect_intern
           s a x y ind
         = Some (if Size y \<le> 24 then (dispatch_addmattransvecI ! Size y) s a x y ind
                 else MultAddMatTransVecIndirect_intern s a x y ind)
       \<and> R (if Size y \<le> 24 then (dispatch_addmattransvecI ! Size y) s a x y ind
            else MultAddMatTransVecIndirect_intern s a x y ind)
           (MultAddMatTransVecIndirect_generic s a x y ind)"
proof (cases "Size y \<le> 24")
  case True
  then show ?thesis
    using assms(1,2) by (simp add: MultAddMatTransVecIndirect_def table_entry_def)
next
  case False
  then show ?thesis
    using assms(3) by (simp add: MultAddMatTransVecIndirect_def)
qed

text \<open>
  The reference routine in every table entry and as the fallback: a \<open>2\<times>2\<close> matrix of ones,
  \<open>x = (1, 2)\<close>, \<open>s = 2\<close> and the index map \<open>[3, 1]\<close> add \<open>2 * (1 + 2) = 6\<close> to the
  entries 3 and 1 of a \<open>y\<close> of length 4 that held 10 everywhere.
\<close>

theorem MultAddMatTransVecIndirect_dispatch_witness:
  "map_option (\<lambda>r. map (Data r) [0, 1, 2, 3])
     (MultAddMatTransVecIndirect
        (replicate 25 MultAddMatTransVecIndirect_generic) MultAddMatTransVecIndirect_generic
        2 (\<lambda>i j. 1) \<lparr>Size = 2, Data = (\<lambda>i. int i + 1)\<rparr> \<lparr>Size = 4, Data = (\<lambda>i. 10)\<rparr> [3, 1])
   = Some [10, 16, 10, 16]"
proof -
  have slots: "\<forall>n\<le>24. \<forall>s a x y ind. Size y = n \<longrightarrow>
      (replicate 25 (MultAddMatTransVecIndirect_generic :: int pmultadd_mattransvecind) ! n)
          s a x y ind
      = MultAddMatTransVecIndirect_generic s a x y ind"
    by simp
  have fallback: "\<forall>s a x y ind. 24 < Size y \<longrightarrow>
      (MultAddMatTransVecIndirect_generic :: int pmultadd_mattransvecind) s a x y ind
      = MultAddMatTransVecIndirect_generic s a x y ind"
    by simp
  have len: "length (replicate 25 (MultAddMatTransVecIndirect_generic
      :: int pmultadd_mattransvecind)) = 25"
    by simp
  show ?thesis
    using MultAddMatTransVecIndirect_dispatch
      [of "replicate 25 MultAddMatTransVecIndirect_generic" "(=)"
          MultAddMatTransVecIndirect_generic, OF len slots fallback,
          of 2 "\<lambda>i j. 1" "\<lparr>Size = 2, Data = (\<lambda>i. int i + 1)\<rparr>"
             "\<lparr>Size = 4, Data = (\<lambda>i. 10)\<rparr>" "[3, 1]"]
    by (simp add: MultAddMatTransVecIndirect_generic_def vec_assign_def
        lessThan_Suc eval_nat_numeral)
qed

section \<open>NgGEMM against the generic semantics\<close>

lemma pmultABW_table_ok_clamped:
  assumes "pmultABW_table_ok krn tbl"
  shows "table_entry tbl (min w (length tbl - 1)) = Some (tbl ! min w 13)"
    and "(tbl ! min w 13) h w wb a b c = krn h w wb a b c"
proof -
  show "table_entry tbl (min w (length tbl - 1)) = Some (tbl ! min w 13)"
    using assms by (simp add: pmultABW_table_ok_def table_entry_def)
  show "(tbl ! min w 13) h w wb a b c = krn h w wb a b c"
  proof (cases "w < 13")
    case True
    then show ?thesis using assms by (simp add: pmultABW_table_ok_def min_def)
  next
    case False
    then show ?thesis using assms by (simp add: pmultABW_table_ok_def min_def)
  qed
qed

lemma kernel_AB_empty:
  "ha = 0 \<or> wb = 0 \<Longrightarrow> kernel_AB ADD POS ha wa wb a b c = c"
  by (auto simp: kernel_AB_def fun_eq_iff)

lemma MultMatMat_kernel:
  assumes "pmultABW_table_ok (kernel_AB ADD POS) tbl"
  shows "MultMatMat tbl a b c
    = Some (c\<lparr>Elems := kernel_AB ADD POS (Height a) (Width a) (Width b) (Elems a) (Elems b) (Elems c)\<rparr>)"
proof (cases "Height a = 0 \<or> Width b = 0")
  case True
  then show ?thesis by (simp add: MultMatMat_def kernel_AB_empty)
next
  case False
  then show ?thesis
    using pmultABW_table_ok_clamped [OF assms]
    by (simp add: MultMatMat_def)
qed


lemma GEMM_entry_points_same_body:
  "MinusMultAB = MultMatMat" "AddAB = MultMatMat" "SubAB = MultMatMat"
  by (simp_all add: fun_eq_iff MinusMultAB_def AddAB_def SubAB_def MultMatMat_def)

lemma AddABt_same_body: "AddABt = MultABt"
  by (simp add: fun_eq_iff AddABt_def MultABt_def)

lemma kernel_AtB_empty:
  "(ha = 0 \<and> ADD) \<or> wb = 0 \<Longrightarrow> kernel_AtB ADD POS ha wa wb a b c = c"
  by (auto simp: kernel_AtB_def policy_def fun_eq_iff)

lemma MatMat_AtB_kernel:
  assumes "pmultABW_table_ok (kernel_AtB ADD POS) tbl" and "Height a \<noteq> 0 \<or> ADD"
  shows "MatMat_AtB tbl a b c
    = Some (kernel_AtB ADD POS (Height a) (Width a) (Width b) (Elems a) (Elems b) c)"
proof (cases "Height a = 0 \<or> Width b = 0")
  case True
  then show ?thesis
    using assms(2) by (auto simp: MatMat_AtB_def kernel_AtB_empty)
next
  case False
  then show ?thesis
    using pmultABW_table_ok_clamped [OF assms(1)]
    by (simp add: MatMat_AtB_def)
qed

lemma MultABt_kernel:
  assumes "pfunc_abt_table_ok (kernel_ABt ADD POS) tbl intern"
  shows "MultABt tbl intern a b c
    = Some (kernel_ABt ADD POS (Height a) (Width a) (Height b) (Elems a) (Elems b) c)"
proof (cases "Width a \<le> 24")
  case True
  then show ?thesis
    using assms by (simp add: MultABt_def pfunc_abt_table_ok_def table_entry_def)
next
  case False
  then show ?thesis
    using assms by (simp add: MultABt_def pfunc_abt_table_ok_def)
qed

lemma scaled_product_one:
  "scaled_product 1 a b i j = (\<Sum>k<Width a. Elems a i k * Elems b k j)"
  by (simp add: scaled_product_def)

lemma scaled_product_minus_one:
  "scaled_product (- 1) a b i j = - (\<Sum>k<Width a. Elems a i k * Elems b k j)"
  by (simp add: scaled_product_def sum_negf)

lemma NgGEMM_generic_policy:
  "NgGEMM_generic ADD POS a b c =
     c\<lparr>Elems := (\<lambda>i j. if i < Height c \<and> j < Width c
                        then policy ADD POS (Elems c i j) (\<Sum>k<Width a. Elems a i k * Elems b k j)
                        else Elems c i j)\<rparr>"
  by (simp add: NgGEMM_generic_def policy_def scaled_product_one scaled_product_minus_one
      fun_eq_iff)

lemma kernel_AB_generic:
  assumes "Height c = Height a" and "Width c = Width b"
  shows "c\<lparr>Elems := kernel_AB ADD POS (Height a) (Width a) (Width b)
                      (Elems a) (Elems b) (Elems c)\<rparr>
         = NgGEMM_generic ADD POS a b c"
  using assms by (simp add: NgGEMM_generic_policy kernel_AB_def)

lemma kernel_ABt_generic:
  assumes "Height c = Height a" and "Width c = Width b"
  shows "c\<lparr>Elems := kernel_ABt ADD POS (Height a) (Width a) (Height (Trans b))
                      (Elems a) (Elems (Trans b)) (Elems c)\<rparr>
         = NgGEMM_generic ADD POS a b c"
  using assms by (simp add: NgGEMM_generic_policy kernel_ABt_def Trans_def)

lemma kernel_AtB_generic:
  assumes "Height c = Height a" and "Width c = Width b"
  shows "c\<lparr>Elems := kernel_AtB ADD POS (Height (Trans a)) (Width (Trans a)) (Width b)
                      (Elems (Trans a)) (Elems b) (Elems c)\<rparr>
         = NgGEMM_generic ADD POS a b c"
  using assms by (simp add: NgGEMM_generic_policy kernel_AtB_def Trans_def)

lemma NgGEMM_generic_Trans:
  assumes "Width a = Height b"
  shows "Trans (NgGEMM_generic ADD POS (Trans b) (Trans a) (Trans c))
         = NgGEMM_generic ADD POS a b (c :: 'a::comm_ring_1 SliceMatrix)"
proof -
  have "(\<Sum>k<Height b. Elems b k j * Elems a i k) = (\<Sum>k<Height b. Elems a i k * Elems b k j)"
    for i j
    by (simp add: mult.commute)
  then show ?thesis
    using assms
    by (cases c, cases "Ord c")
      (auto simp: NgGEMM_generic_policy Trans_def fun_eq_iff)
qed

lemma NgGEMM_RowMajor_generic:
  assumes ok: "externs_ok E"
    and shape: "Height c = Height a" "Width c = Width b"
    and contraction: "\<not> (Ord a = ColMajor \<and> Ord b = RowMajor \<and> \<not> ADD \<and> Width a = 0)"
  shows "NgGEMM_RowMajor E ADD POS a b c = Some (NgGEMM_generic ADD POS a b c)"
proof (cases "Ord a")
  case RowMajor
  note orda = this
  show ?thesis
  proof (cases "Ord b")
    case RowMajor
    from ok have tabs:
      "pmultABW_table_ok (kernel_AB False True) (ext_dispatch_multAB E)"
      "pmultABW_table_ok (kernel_AB False False) (ext_dispatch_minusmultAB E)"
      "pmultABW_table_ok (kernel_AB True True) (ext_dispatch_addAB E)"
      "pmultABW_table_ok (kernel_AB True False) (ext_dispatch_subAB E)"
      by (simp_all add: externs_ok_def)
    have "MultMatMat (ext_dispatch_multAB E) a b c = Some (NgGEMM_generic False True a b c)"
      "MultMatMat (ext_dispatch_minusmultAB E) a b c = Some (NgGEMM_generic False False a b c)"
      "MultMatMat (ext_dispatch_addAB E) a b c = Some (NgGEMM_generic True True a b c)"
      "MultMatMat (ext_dispatch_subAB E) a b c = Some (NgGEMM_generic True False a b c)"
      using MultMatMat_kernel [OF tabs(1), of a b c] MultMatMat_kernel [OF tabs(2), of a b c]
        MultMatMat_kernel [OF tabs(3), of a b c] MultMatMat_kernel [OF tabs(4), of a b c] shape
      by (simp_all add: kernel_AB_generic)
    then show ?thesis
      using orda RowMajor
      by (cases ADD; cases POS) (simp_all add: NgGEMM_RowMajor_def GEMM_entry_points_same_body)
  next
    case ColMajor
    from ok have tabs:
      "pfunc_abt_table_ok (kernel_ABt False True) (ext_dispatch_abt E) (ext_MultABt_intern E)"
      "pfunc_abt_table_ok (kernel_ABt True True) (ext_dispatch_addabt E) (ext_AddABt_intern E)"
      by (simp_all add: externs_ok_def)
    have abt: "MultABt (ext_dispatch_abt E) (ext_MultABt_intern E) a (Trans b) (Elems c)
        = Some (kernel_ABt False True (Height a) (Width a) (Height (Trans b))
                  (Elems a) (Elems (Trans b)) (Elems c))"
      "MultABt (ext_dispatch_addabt E) (ext_AddABt_intern E) a (Trans b) (Elems c)
        = Some (kernel_ABt True True (Height a) (Width a) (Height (Trans b))
                  (Elems a) (Elems (Trans b)) (Elems c))"
      using MultABt_kernel [OF tabs(1)] MultABt_kernel [OF tabs(2)] by simp_all
    have ext: "ext_MinusMultABt E a (Trans b) (Elems c)
        = kernel_ABt False False (Height a) (Width a) (Height (Trans b))
            (Elems a) (Elems (Trans b)) (Elems c)"
      "ext_SubABt E a (Trans b) (Elems c)
        = kernel_ABt True False (Height a) (Width a) (Height (Trans b))
            (Elems a) (Elems (Trans b)) (Elems c)"
      using ok by (simp_all add: externs_ok_def matmat_extern_ok_def)
    show ?thesis
      using orda ColMajor abt ext shape
      by (cases ADD; cases POS)
        (simp_all add: NgGEMM_RowMajor_def AddABt_same_body kernel_ABt_generic)
  qed
next
  case ColMajor
  note orda = this
  show ?thesis
  proof (cases "Ord b")
    case RowMajor
    from contraction orda RowMajor have "Height (Trans a) \<noteq> 0 \<or> ADD"
      by (auto simp: Trans_def)
    moreover from ok have "pmultABW_table_ok (kernel_AtB ADD POS) (ext_dispatch_atb E ADD POS)"
      by (simp add: externs_ok_def)
    ultimately have "MatMat_AtB (ext_dispatch_atb E ADD POS) (Trans a) b (Elems c)
        = Some (kernel_AtB ADD POS (Height (Trans a)) (Width (Trans a)) (Width b)
                  (Elems (Trans a)) (Elems b) (Elems c))"
      by (rule MatMat_AtB_kernel [rotated])
    then show ?thesis
      using orda RowMajor shape
      by (cases ADD; cases POS) (simp_all add: NgGEMM_RowMajor_def kernel_AtB_generic)
  next
    case ColMajor
    then show ?thesis
      using orda by (simp add: NgGEMM_RowMajor_def)
  qed
qed


lemma externs_ok_generic_externs: "externs_ok generic_externs"
  by (simp add: externs_ok_def generic_externs_def pmultABW_table_ok_def
      pfunc_abt_table_ok_def matmat_extern_ok_def)

lemma Trans_Trans: "Trans (Trans a) = a"
  by (cases a, cases "Ord a") (simp_all add: Trans_def)

lemma NgGEMM_resolved_Generic:
  "(NgGEMM_resolved ADD POS orda ordb ordc = Generic) = (orda = ordb \<and> orda \<noteq> ordc)"
  by (cases ADD; cases POS; cases orda; cases ordb; cases ordc)
    (simp_all add: NgGEMM_resolved_def)

lemma NgGEMM_resolved_body:
  "NgGEMM E ADD POS a b c =
     (case Ord c of
        RowMajor \<Rightarrow> NgGEMM_body E (NgGEMM_resolved ADD POS (Ord a) (Ord b) (Ord c)) ADD POS a b c
      | ColMajor \<Rightarrow>
          map_option Trans
            (NgGEMM_body E (NgGEMM_resolved ADD POS (Ord a) (Ord b) (Ord c)) ADD POS
               (Trans b) (Trans a) (Trans c)))"
  by (cases "Ord c")
    (simp_all add: NgGEMM_def NgGEMM_RowMajor_def NgGEMM_resolved_def Trans_def)

lemma NgGEMM_ColMajor_swap:
  "Ord c = ColMajor \<Longrightarrow>
   NgGEMM E ADD POS a b c = map_option Trans (NgGEMM E ADD POS (Trans b) (Trans a) (Trans c))"
  by (simp add: NgGEMM_def Trans_def)

lemma NgGEMM_generic_semantics:
  assumes ok: "externs_ok E"
    and inner: "Width a = Height b"
    and shape: "Height c = Height a" "Width c = Width b"
    and contraction: "\<not> (Ord a = ColMajor \<and> Ord b = RowMajor \<and> \<not> ADD \<and> Width a = 0)"
  shows "NgGEMM E ADD POS a b c = Some (NgGEMM_generic ADD POS a b c)"
proof (cases "Ord c")
  case RowMajor
  then show ?thesis
    using NgGEMM_RowMajor_generic [OF ok shape contraction] by (simp add: NgGEMM_def)
next
  case ColMajor
  have "NgGEMM_RowMajor E ADD POS (Trans b) (Trans a) (Trans c)
      = Some (NgGEMM_generic ADD POS (Trans b) (Trans a) (Trans c))"
  proof (rule NgGEMM_RowMajor_generic [OF ok])
    show "Height (Trans c) = Height (Trans b)"
      using shape by (simp add: Trans_def)
    show "Width (Trans c) = Width (Trans a)"
      using shape by (simp add: Trans_def)
    show "\<not> (Ord (Trans b) = ColMajor \<and> Ord (Trans a) = RowMajor \<and> \<not> ADD
        \<and> Width (Trans b) = 0)"
      using contraction inner by (cases "Ord a"; cases "Ord b") (simp_all add: Trans_def)
  qed
  then show ?thesis
    using ColMajor NgGEMM_generic_Trans [OF inner, of ADD POS c] by (simp add: NgGEMM_def)
qed

text \<open>
  \<open>MatMat_AtB\<close> returns early when its first argument has height zero. Under \<open>NgGEMM\<close>
  that argument is \<open>Trans a\<close>, whose height is the contraction dimension: the overwriting
  product of a column-major \<open>1\<times>0\<close> matrix with a row-major \<open>0\<times>1\<close> matrix leaves the 5 in
  \<open>c\<close>, where \<open>C := A\<cdot>B\<close> is the empty sum 0.
\<close>

lemma NgGEMM_AtB_zero_contraction:
  "NgGEMM generic_externs False True
       \<lparr>Height = 1, Width = 0, Ord = ColMajor, Elems = (\<lambda>i j. 0::int)\<rparr>
       \<lparr>Height = 0, Width = 1, Ord = RowMajor, Elems = (\<lambda>i j. 0)\<rparr>
       \<lparr>Height = 1, Width = 1, Ord = RowMajor, Elems = (\<lambda>i j. 5)\<rparr>
     = Some \<lparr>Height = 1, Width = 1, Ord = RowMajor, Elems = (\<lambda>i j. 5)\<rparr>
   \<and> Elems (NgGEMM_generic False True
       \<lparr>Height = 1, Width = 0, Ord = ColMajor, Elems = (\<lambda>i j. 0::int)\<rparr>
       \<lparr>Height = 0, Width = 1, Ord = RowMajor, Elems = (\<lambda>i j. 0)\<rparr>
       \<lparr>Height = 1, Width = 1, Ord = RowMajor, Elems = (\<lambda>i j. 5)\<rparr>) 0 0 = 0"
  by (simp add: NgGEMM_def NgGEMM_RowMajor_def MatMat_AtB_def Trans_def NgGEMM_generic_def
      scaled_product_def)

text \<open>
  The claim that every combination of orders resolves to a specialised entry point fails:
  column-major operands with a row-major result, and row-major operands with a
  column-major result, resolve to the generic template. With tables and routines that
  would all write 7, the product of \<open>(2)\<close> and \<open>(3)\<close> is still 6: no table was used.
\<close>

theorem NgGEMM_unspecialised_counterexample:
  "NgGEMM_resolved False True ColMajor ColMajor RowMajor = Generic
   \<and> NgGEMM_resolved True False RowMajor RowMajor ColMajor = Generic
   \<and> map_option (\<lambda>r. Elems r 0 0)
       (NgGEMM
          \<lparr>ext_dispatch_multAB = replicate 14 (\<lambda>ha wa wb a b c i j. 7),
           ext_dispatch_minusmultAB = replicate 14 (\<lambda>ha wa wb a b c i j. 7),
           ext_dispatch_addAB = replicate 14 (\<lambda>ha wa wb a b c i j. 7),
           ext_dispatch_subAB = replicate 14 (\<lambda>ha wa wb a b c i j. 7),
           ext_dispatch_atb = (\<lambda>ADD POS. replicate 14 (\<lambda>ha wa wb a b c i j. 7)),
           ext_dispatch_abt = replicate 25 (\<lambda>ha hb a b c i j. 7),
           ext_dispatch_addabt = replicate 25 (\<lambda>ha hb a b c i j. 7),
           ext_MultABt_intern = (\<lambda>a b c i j. 7),
           ext_AddABt_intern = (\<lambda>a b c i j. 7),
           ext_MinusMultABt = (\<lambda>a b c i j. 7),
           ext_SubABt = (\<lambda>a b c i j. 7)\<rparr>
          False True
          \<lparr>Height = 1, Width = 1, Ord = ColMajor, Elems = (\<lambda>i j. 2::int)\<rparr>
          \<lparr>Height = 1, Width = 1, Ord = ColMajor, Elems = (\<lambda>i j. 3)\<rparr>
          \<lparr>Height = 1, Width = 1, Ord = RowMajor, Elems = (\<lambda>i j. 5)\<rparr>) = Some 6"
  by (simp add: NgGEMM_resolved_def NgGEMM_def NgGEMM_RowMajor_def NgGEMM_generic_def
      scaled_product_def)

text \<open>
  C5, amended. Let the tables and routines be as the spec asks, the shapes fit
  (\<open>a\<close> is \<open>h\<times>k\<close>, \<open>b\<close> is \<open>k\<times>w\<close>, \<open>c\<close> is \<open>h\<times>w\<close>), and leave aside the overwriting product
  of a column-major \<open>a\<close> of width zero with a row-major \<open>b\<close>. Then for every \<open>ADD\<close>, \<open>POS\<close>
  and every combination of the three orders, \<open>NgGEMM\<close> computes the generic semantics
  (\<open>C := A\<cdot>B\<close>, \<open>C := -A\<cdot>B\<close>, \<open>C += A\<cdot>B\<close> or \<open>C -= A\<cdot>B\<close>); a column-major result is
  computed as the call on \<open>Trans b\<close>, \<open>Trans a\<close>, \<open>Trans c\<close>; the body that runs is the one
  \<open>NgGEMM_resolved\<close> names; and that body is the generic template exactly when both
  operands have the same order and the result has the other one: every other combination
  resolves to one specialised entry point.
\<close>

theorem NgGEMM_refines_generic:
  assumes "externs_ok E"
    and "Width a = Height b" and "Height c = Height a" and "Width c = Width b"
    and "\<not> (Ord a = ColMajor \<and> Ord b = RowMajor \<and> \<not> ADD \<and> Width a = 0)"
  shows "NgGEMM E ADD POS a b c = Some (NgGEMM_generic ADD POS a b c)
       \<and> (Ord c = ColMajor \<longrightarrow>
            NgGEMM E ADD POS a b c
              = map_option Trans (NgGEMM E ADD POS (Trans b) (Trans a) (Trans c)))
       \<and> NgGEMM E ADD POS a b c =
           (case Ord c of
              RowMajor \<Rightarrow>
                NgGEMM_body E (NgGEMM_resolved ADD POS (Ord a) (Ord b) (Ord c)) ADD POS a b c
            | ColMajor \<Rightarrow>
                map_option Trans
                  (NgGEMM_body E (NgGEMM_resolved ADD POS (Ord a) (Ord b) (Ord c)) ADD POS
                     (Trans b) (Trans a) (Trans c)))
       \<and> ((NgGEMM_resolved ADD POS (Ord a) (Ord b) (Ord c) = Generic)
            = (Ord a = Ord b \<and> Ord a \<noteq> Ord c))"
  using NgGEMM_generic_semantics [OF assms] NgGEMM_ColMajor_swap [of c E ADD POS a b]
    NgGEMM_resolved_body [of E ADD POS a b c]
    NgGEMM_resolved_Generic [of ADD POS "Ord a" "Ord b" "Ord c"]
  by blast

text \<open>
  \<open>C -= A\<cdot>B\<close> with a row-major \<open>A = (1 2)\<close>, a column-major \<open>B = (3 4)\<^sup>t\<close> and a
  column-major \<open>C = (10)\<close>: the call resolves to \<open>SubABt\<close> and leaves \<open>10 - 11 = -1\<close>.
\<close>

theorem NgGEMM_refines_generic_witness:
  "map_option (\<lambda>r. Elems r 0 0)
     (NgGEMM generic_externs True False
        \<lparr>Height = 1, Width = 2, Ord = RowMajor, Elems = (\<lambda>i j. int j + 1)\<rparr>
        \<lparr>Height = 2, Width = 1, Ord = ColMajor, Elems = (\<lambda>i j. int i + 3)\<rparr>
        \<lparr>Height = 1, Width = 1, Ord = ColMajor, Elems = (\<lambda>i j. 10)\<rparr>) = Some (- 1)
   \<and> NgGEMM_resolved True False RowMajor ColMajor ColMajor = Use_SubABt"
  using NgGEMM_refines_generic [OF externs_ok_generic_externs, of
      "\<lparr>Height = 1, Width = 2, Ord = RowMajor, Elems = (\<lambda>i j. int j + 1)\<rparr>"
      "\<lparr>Height = 2, Width = 1, Ord = ColMajor, Elems = (\<lambda>i j. int i + 3)\<rparr>"
      "\<lparr>Height = 1, Width = 1, Ord = ColMajor, Elems = (\<lambda>i j. 10)\<rparr>" True False]
  by (simp add: NgGEMM_generic_def scaled_product_def NgGEMM_resolved_def
      lessThan_Suc eval_nat_numeral)

section \<open>Row scaling and its inverse\<close>

lemma ScaleRows_entries:
  "ScaleRows a d =
     a\<lparr>Elems := (\<lambda>i j. if i < Height a \<and> j < Width a then Elems a i j * d i
                        else Elems a i j)\<rparr>"
  by (cases a, cases "Ord a") (auto simp: ScaleRows_def ScaleCols_def Trans_def fun_eq_iff)

text \<open>
  C7. \<open>ScaleRows a d\<close> is \<open>ScaleCols\<close> applied to the transposed view, and it multiplies
  row \<open>i\<close> of \<open>a\<close> by \<open>d i\<close> in place. Over a field (exact arithmetic, which leaves no
  rounding), for every matrix \<open>a\<close> and every \<open>d\<close> whose entries for the rows of \<open>a\<close> are
  nonzero, \<open>ScaleRows a d\<close> followed by \<open>ScaleCols\<close> of the transposed view with the
  reciprocals \<open>1 / d i\<close> leaves \<open>a\<close> as it was.
\<close>

theorem ScaleRows_ScaleCols_transposed:
  fixes a :: "'a::field SliceMatrix"
  shows "ScaleRows a d = Trans (ScaleCols (Trans a) d)
       \<and> ScaleRows a d =
           a\<lparr>Elems := (\<lambda>i j. if i < Height a \<and> j < Width a then Elems a i j * d i
                              else Elems a i j)\<rparr>
       \<and> ((\<forall>i<Height a. d i \<noteq> 0) \<longrightarrow>
            Trans (ScaleCols (Trans (ScaleRows a d)) (\<lambda>i. 1 / d i)) = a)"
proof -
  have "Trans (ScaleCols (Trans (ScaleRows a d)) (\<lambda>i. 1 / d i)) = a"
    if nz: "\<forall>i<Height a. d i \<noteq> 0"
  proof -
    have "Trans (ScaleCols (Trans (ScaleRows a d)) (\<lambda>i. 1 / d i))
        = ScaleRows (ScaleRows a d) (\<lambda>i. 1 / d i)"
      by (simp add: ScaleRows_def)
    also have "\<dots> = a"
      using nz by (cases a) (auto simp: ScaleRows_entries fun_eq_iff)
    finally show ?thesis .
  qed
  then show ?thesis
    by (simp add: ScaleRows_entries [symmetric]) (simp add: ScaleRows_def)
qed

text \<open>
  The matrix with rows \<open>(1 2)\<close> and \<open>(3 4)\<close> scaled by \<open>d = (2, 3)\<close>: entry \<open>(1,0)\<close> becomes
  9, and scaling back by \<open>(1/2, 1/3)\<close> restores the matrix.
\<close>

theorem ScaleRows_ScaleCols_transposed_witness:
  "Elems (ScaleRows
          \<lparr>Height = 2, Width = 2, Ord = RowMajor, Elems = (\<lambda>i j. real (2 * i + j + 1))\<rparr>
          (\<lambda>i. real (i + 2))) 1 0 = 9
   \<and> Trans (ScaleCols (Trans (ScaleRows
          \<lparr>Height = 2, Width = 2, Ord = RowMajor, Elems = (\<lambda>i j. real (2 * i + j + 1))\<rparr>
          (\<lambda>i. real (i + 2)))) (\<lambda>i. 1 / real (i + 2)))
     = \<lparr>Height = 2, Width = 2, Ord = RowMajor, Elems = (\<lambda>i j. real (2 * i + j + 1))\<rparr>"
proof -
  let ?a = "\<lparr>Height = 2, Width = 2, Ord = RowMajor, Elems = (\<lambda>i j. real (2 * i + j + 1))\<rparr>"
  let ?d = "\<lambda>i. real (i + 2)"
  note t = ScaleRows_ScaleCols_transposed [of ?a ?d]
  have nz: "\<forall>i<Height ?a. ?d i \<noteq> 0"
    by simp
  from t have entries: "ScaleRows ?a ?d =
      ?a\<lparr>Elems := (\<lambda>i j. if i < Height ?a \<and> j < Width ?a then Elems ?a i j * ?d i
                         else Elems ?a i j)\<rparr>"
    by blast
  have "Elems (ScaleRows ?a ?d) 1 0 = 9"
    by (subst entries) simp
  moreover from t nz
  have "Trans (ScaleCols (Trans (ScaleRows ?a ?d)) (\<lambda>i. 1 / ?d i)) = ?a"
    by blast
  ultimately show ?thesis
    by (rule conjI)
qed

section \<open>MultiVectorAdd with the identity coefficients\<close>

lemma MultiVectorAdd_identity:
  fixes x y :: "(nat \<Rightarrow> 'a::semiring_1) list"
  assumes "length y = length x" and "i < length x"
  shows "(MultiVectorAdd n x y identity_coefficients ! i) k
         = (if k < n then (x ! i) k + (y ! i) k else (x ! i) k)"
proof -
  have "(\<Sum>j<length y. (if i = j then 1 else 0) * (y ! j) k) = (y ! i) k"
  proof -
    have "(\<Sum>j<length y. (if i = j then 1 else 0) * (y ! j) k)
        = (\<Sum>j\<in>{..<length y}. if i = j then (y ! j) k else 0)"
      by (rule sum.cong) simp_all
    also have "\<dots> = (y ! i) k"
      using assms by (simp add: sum.delta')
    finally show ?thesis .
  qed
  then show ?thesis
    using assms by (simp add: MultiVectorAdd_def identity_coefficients_def)
qed

text \<open>
  The claim that \<open>PairwiseInnerProduct\<close> followed by \<open>MultiVectorAdd\<close> with the identity
  coefficient matrix reproduces the original vectors fails: the update is
  \<open>x_i += sum_j a(i,j) y_j\<close>, so with the identity each \<open>y_i\<close> is added to \<open>x_i\<close>. For the
  one vector \<open>(1)\<close>, as target and as source, the inner product is 1 and the vector
  afterwards is \<open>(2)\<close>, not \<open>(1)\<close>.
\<close>

theorem MultiVectorAdd_identity_counterexample:
  "map (\<lambda>v. v 0)
     (MultiVectorAdd 1 [\<lambda>k. 1 :: int] [\<lambda>k. 1] identity_coefficients) = [2]
   \<and> map (\<lambda>v. v 0) [\<lambda>k. 1 :: int] = [1]
   \<and> PairwiseInnerProduct 1 [\<lambda>k. 1 :: int] [\<lambda>k. 1] (\<lambda>i j. 0) 0 0 = 1"
  by (simp add: MultiVectorAdd_def identity_coefficients_def PairwiseInnerProduct_def)

text \<open>
  C8, amended. For collections \<open>x\<close> and \<open>y\<close> of equally many vectors of length \<open>n\<close>:
  \<open>MultiVectorAdd\<close> with the identity coefficient matrix keeps the number of vectors and
  turns every \<open>x_i\<close> into \<open>x_i + y_i\<close> on the first \<open>n\<close> elements; applied to zero target
  vectors and the source \<open>x\<close> it reproduces \<open>x\<close>; and \<open>PairwiseInnerProduct\<close> of \<open>x\<close> with
  itself fills \<open>ip(i,j) = <x_i, x_j>\<close> (it writes no vector).
\<close>

theorem MultiVectorAdd_identity_adds:
  fixes x y :: "(nat \<Rightarrow> 'a::semiring_1) list"
  assumes "length y = length x"
  shows "length (MultiVectorAdd n x y identity_coefficients) = length x
       \<and> (\<forall>i<length x. \<forall>k.
            (MultiVectorAdd n x y identity_coefficients ! i) k
              = (if k < n then (x ! i) k + (y ! i) k else (x ! i) k))
       \<and> (\<forall>i<length x. \<forall>k<n.
            (MultiVectorAdd n (replicate (length x) (\<lambda>k. 0)) x identity_coefficients ! i) k
              = (x ! i) k)
       \<and> (\<forall>i<length x. \<forall>j<length x.
            PairwiseInnerProduct n x x ip i j = (\<Sum>k<n. (x ! i) k * (x ! j) k))"
proof -
  have "length (MultiVectorAdd n x y identity_coefficients) = length x"
    by (simp add: MultiVectorAdd_def)
  moreover have "\<forall>i<length x. \<forall>k.
      (MultiVectorAdd n x y identity_coefficients ! i) k
        = (if k < n then (x ! i) k + (y ! i) k else (x ! i) k)"
    using MultiVectorAdd_identity [OF assms] by blast
  moreover have "\<forall>i<length x. \<forall>k<n.
      (MultiVectorAdd n (replicate (length x) (\<lambda>k. 0)) x identity_coefficients ! i) k
        = (x ! i) k"
    using MultiVectorAdd_identity [of x "replicate (length x) (\<lambda>k. 0)" _ n] by simp
  moreover have "\<forall>i<length x. \<forall>j<length x.
      PairwiseInnerProduct n x x ip i j = (\<Sum>k<n. (x ! i) k * (x ! j) k)"
    by (simp add: PairwiseInnerProduct_def)
  ultimately show ?thesis
    by blast
qed

text \<open>
  Targets \<open>(1 2)\<close>, \<open>(5 5)\<close> and sources \<open>(10 10)\<close>, \<open>(0 1)\<close>: element 1 of the results is
  \<open>2 + 10\<close> and \<open>5 + 1\<close>; from zero targets, element 1 of the first result is the
  source's 2.
\<close>

theorem MultiVectorAdd_identity_adds_witness:
  "(MultiVectorAdd 2 [\<lambda>k. int k + 1, \<lambda>k. 5] [\<lambda>k. 10, \<lambda>k. int k] identity_coefficients ! 0) 1
     = 12
   \<and> (MultiVectorAdd 2 [\<lambda>k. int k + 1, \<lambda>k. 5] [\<lambda>k. 10, \<lambda>k. int k] identity_coefficients ! 1) 1
     = 6
   \<and> (MultiVectorAdd 2 (replicate 2 (\<lambda>k. 0)) [\<lambda>k. int k + 1, \<lambda>k. 5] identity_coefficients ! 0) 1
     = 2"
proof -
  let ?x = "[\<lambda>k. int k + 1, \<lambda>k. 5]"
  let ?y = "[\<lambda>k. 10, \<lambda>k. int k]"
  have len: "length ?y = length ?x"
    by simp
  note t = MultiVectorAdd_identity_adds [OF len, of 2]
  from t have sums: "\<forall>i<length ?x. \<forall>k.
      (MultiVectorAdd 2 ?x ?y identity_coefficients ! i) k
        = (if k < 2 then (?x ! i) k + (?y ! i) k else (?x ! i) k)"
    by blast
  from t have zero: "\<forall>i<length ?x. \<forall>k<2.
      (MultiVectorAdd 2 (replicate (length ?x) (\<lambda>k. 0)) ?x identity_coefficients ! i) k
        = (?x ! i) k"
    by blast
  show ?thesis
    using sums [rule_format, of 0 1] sums [rule_format, of 1 1] zero [rule_format, of 0 1]
    by (simp add: numeral_2_eq_2)
qed

section \<open>The Schur complement as a block formula\<close>

lemma find_pivot_Some:
  assumes "find_pivot m rs cs = Some (r, c)"
  shows "r \<in> set rs" "c \<in> set cs" "m r c \<noteq> 0"
proof -
  from assms obtain i where "i < length (List.product rs cs)"
    and "List.product rs cs ! i = (r, c)" and nz: "m r c \<noteq> 0"
    by (auto simp: find_pivot_def find_Some_iff)
  then have "(r, c) \<in> set (List.product rs cs)"
    by (metis nth_mem)
  then show "r \<in> set rs" "c \<in> set cs"
    by simp_all
  show "m r c \<noteq> 0"
    by (rule nz)
qed

lemma find_pivot_None:
  assumes "find_pivot m rs cs = None" "r \<in> set rs" "c \<in> set cs"
  shows "m r c = 0"
  using assms by (auto simp: find_pivot_def find_None_iff)

lemma eliminate_at_sum:
  fixes m :: "'a::field BareSliceMatrix"
  shows "(\<Sum>e\<in>E. eliminate_at r c m i e * X e)
       = (\<Sum>e\<in>E. m i e * X e) - m i c / m r c * (\<Sum>e\<in>E. m r e * X e)"
proof -
  have "(\<Sum>e\<in>E. eliminate_at r c m i e * X e)
      = (\<Sum>e\<in>E. m i e * X e - m i c / m r c * (m r e * X e))"
    by (rule sum.cong) (simp_all add: eliminate_at_def left_diff_distrib)
  then show ?thesis
    by (simp add: sum_subtractf sum_distrib_left)
qed

text \<open>
  The invariant of the elimination: after the updates, the matrix is \<open>m - m\<^sub>\<bullet>\<^sub>c \<cdot> X\<close> for a
  solution \<open>X\<close> of \<open>m\<^sub>r\<^sub>c \<cdot> X = m\<^sub>r\<^sub>\<bullet>\<close>, over the rows \<open>rs\<close> and columns \<open>cs\<close> eliminated.
\<close>

lemma elimination_solves:
  fixes m :: "'a::field BareSliceMatrix"
  assumes "eliminate_block n rs cs m = Some M"
    and "length rs = n" and "length cs = n" and "distinct rs" and "distinct cs"
  shows "\<exists>X. (\<forall>r\<in>set rs. \<forall>j. (\<Sum>c\<in>set cs. m r c * X c j) = m r j)
           \<and> (\<forall>i j. M i j = m i j - (\<Sum>c\<in>set cs. m i c * X c j))"
  using assms
proof (induction n arbitrary: rs cs m)
  case 0
  then show ?case by simp
next
  case (Suc n)
  from Suc.prems(1) obtain r c where piv: "find_pivot m rs cs = Some (r, c)"
    and rest: "eliminate_block n (remove1 r rs) (remove1 c cs) (eliminate_at r c m) = Some M"
    by (auto split: option.splits)
  note p = find_pivot_Some [OF piv]
  define rs' where "rs' = remove1 r rs"
  define cs' where "cs' = remove1 c cs"
  define m' where "m' = eliminate_at r c m"
  have sets: "set rs = insert r (set rs')" "set cs = insert c (set cs')"
    "r \<notin> set rs'" "c \<notin> set cs'"
    using p Suc.prems(4,5) by (auto simp: rs'_def cs'_def)
  have lens: "length rs' = n" "length cs' = n" "distinct rs'" "distinct cs'"
    using p Suc.prems(2-5) by (simp_all add: rs'_def cs'_def length_remove1)
  from Suc.IH [OF rest [folded rs'_def cs'_def m'_def] lens] obtain X'
    where solve': "\<And>q j. q \<in> set rs' \<Longrightarrow> (\<Sum>e\<in>set cs'. m' q e * X' e j) = m' q j"
      and result': "\<And>i j. M i j = m' i j - (\<Sum>e\<in>set cs'. m' i e * X' e j)"
    by blast
  define S where "S i j = (\<Sum>e\<in>set cs'. m i e * X' e j)" for i j
  define X where "X e j = (if e = c then (m r j - S r j) / m r c else X' e j)" for e j
  have same: "(\<Sum>e\<in>set cs'. m i e * X e j) = S i j" for i j
    unfolding S_def by (rule sum.cong) (use sets in \<open>auto simp: X_def\<close>)
  have whole: "(\<Sum>e\<in>set cs. m i e * X e j) = m i c * X c j + S i j" for i j
    using sets by (simp add: same)
  have Xc: "X c j = (m r j - S r j) / m r c" for j
    by (simp add: X_def)
  have split': "(\<Sum>e\<in>set cs'. m' i e * X' e j) = S i j - m i c / m r c * S r j" for i j
    unfolding m'_def S_def by (rule eliminate_at_sum)
  have "(\<Sum>e\<in>set cs. m q e * X e j) = m q j" if "q \<in> set rs" for q j
  proof (cases "q = r")
    case True
    then show ?thesis
      using p(3) by (simp only: whole Xc) (simp add: field_simps)
  next
    case False
    with that sets have "q \<in> set rs'" by simp
    from solve' [OF this, of j]
    have "S q j - m q c / m r c * S r j = m q j - m q c * m r j / m r c"
      by (simp add: split') (simp add: m'_def eliminate_at_def)
    then show ?thesis
      using p(3) by (simp only: whole Xc) (simp add: field_simps)
  qed
  moreover have "M i j = m i j - (\<Sum>e\<in>set cs. m i e * X e j)" for i j
  proof -
    have "M i j = m' i j - (S i j - m i c / m r c * S r j)"
      by (simp add: result' split')
    also have "\<dots> = m i j - (m i c * X c j + S i j)"
      using p(3) by (simp add: m'_def eliminate_at_def Xc field_simps)
    finally show ?thesis
      by (simp only: whole)
  qed
  ultimately show ?case
    by blast
qed

text \<open>
  A block with a trivial kernel has a nonzero entry, and an update leaves a block with a
  trivial kernel: the elimination of an invertible block never stops short.
\<close>

lemma regular_pivot:
  fixes m :: "'a::field BareSliceMatrix"
  assumes reg: "regular m (set rs) (set cs)" and ne: "cs \<noteq> []"
  shows "find_pivot m rs cs \<noteq> None"
proof
  assume none: "find_pivot m rs cs = None"
  from ne obtain c0 where c0: "c0 \<in> set cs"
    by (cases cs) auto
  define v :: "nat \<Rightarrow> 'a" where "v c = (if c = c0 then 1 else 0)" for c
  have "(\<Sum>c\<in>set cs. m r c * v c) = 0" if "r \<in> set rs" for r
  proof -
    have "(\<Sum>c\<in>set cs. m r c * v c) = (\<Sum>c\<in>set cs. 0)"
      by (rule sum.cong) (use find_pivot_None [OF none that] in \<open>simp_all add: v_def\<close>)
    then show ?thesis by simp
  qed
  with reg c0 have "v c0 = 0"
    unfolding regular_def by blast
  then show False
    by (simp add: v_def)
qed

lemma regular_eliminate:
  fixes m :: "'a::field BareSliceMatrix"
  assumes reg: "regular m (insert r R) (insert c C)"
    and fresh: "r \<notin> R" "c \<notin> C" and fin: "finite C" and pivot: "m r c \<noteq> 0"
  shows "regular (eliminate_at r c m) R C"
  unfolding regular_def
proof (intro allI impI ballI)
  fix v :: "nat \<Rightarrow> 'a" and c'
  assume kernel': "\<forall>q\<in>R. (\<Sum>e\<in>C. eliminate_at r c m q e * v e) = 0" and c': "c' \<in> C"
  define T where "T i = (\<Sum>e\<in>C. m i e * v e)" for i
  define w where "w e = (if e = c then - T r / m r c else v e)" for e
  have same: "(\<Sum>e\<in>C. m i e * w e) = T i" for i
    unfolding T_def by (rule sum.cong) (use fresh in \<open>auto simp: w_def\<close>)
  have whole: "(\<Sum>e\<in>insert c C. m i e * w e) = m i c * w c + T i" for i
    using fresh fin by (simp add: same)
  have wc: "w c = - T r / m r c"
    by (simp add: w_def)
  have "(\<Sum>e\<in>insert c C. m q e * w e) = 0" if "q \<in> insert r R" for q
  proof (cases "q = r")
    case True
    then show ?thesis
      using pivot by (simp only: whole wc) (simp add: field_simps)
  next
    case False
    with that have "q \<in> R" by simp
    with kernel' have "(\<Sum>e\<in>C. eliminate_at r c m q e * v e) = 0"
      by blast
    then have "T q - m q c / m r c * T r = 0"
      by (simp add: eliminate_at_sum T_def)
    then show ?thesis
      using pivot by (simp only: whole wc) (simp add: field_simps)
  qed
  with reg have "\<forall>e\<in>insert c C. w e = 0"
    unfolding regular_def by blast
  with c' have "w c' = 0"
    by blast
  moreover from c' fresh have "c' \<noteq> c"
    by auto
  ultimately show "v c' = 0"
    by (simp add: w_def)
qed

lemma regular_completes:
  fixes m :: "'a::field BareSliceMatrix"
  assumes "regular m (set rs) (set cs)"
    and "length rs = n" and "length cs = n" and "distinct rs" and "distinct cs"
  shows "\<exists>M. eliminate_block n rs cs m = Some M"
  using assms
proof (induction n arbitrary: rs cs m)
  case 0
  then show ?case by simp
next
  case (Suc n)
  from Suc.prems(3) have "cs \<noteq> []" by auto
  from regular_pivot [OF Suc.prems(1) this] obtain r c
    where piv: "find_pivot m rs cs = Some (r, c)"
    by auto
  note p = find_pivot_Some [OF piv]
  have sets: "set rs = insert r (set (remove1 r rs))" "set cs = insert c (set (remove1 c cs))"
    "r \<notin> set (remove1 r rs)" "c \<notin> set (remove1 c cs)"
    using p Suc.prems(4,5) by auto
  have "regular (eliminate_at r c m) (set (remove1 r rs)) (set (remove1 c cs))"
  proof (rule regular_eliminate
      [of m r "set (remove1 r rs)" c "set (remove1 c cs)", OF _ sets(3,4) _ p(3)])
    show "regular m (insert r (set (remove1 r rs))) (insert c (set (remove1 c cs)))"
      using Suc.prems(1) sets(1,2) by simp
    show "finite (set (remove1 c cs))"
      by simp
  qed
  moreover have "length (remove1 r rs) = n" "length (remove1 c cs) = n"
    "distinct (remove1 r rs)" "distinct (remove1 c cs)"
    using p Suc.prems(2-5) by (simp_all add: length_remove1)
  ultimately obtain M
    where "eliminate_block n (remove1 r rs) (remove1 c cs) (eliminate_at r c m) = Some M"
    using Suc.IH by blast
  then show ?case
    using piv by simp
qed

lemma left_inverse_regular:
  fixes m :: "'a::field BareSliceMatrix"
  assumes fin: "finite E"
    and inv: "\<And>e e''. e \<in> E \<Longrightarrow> e'' \<in> E \<Longrightarrow>
        (\<Sum>e'\<in>E. B e e' * m e' e'') = (if e = e'' then 1 else 0)"
  shows "regular m E E"
  unfolding regular_def
proof (intro allI impI ballI)
  fix v :: "nat \<Rightarrow> 'a" and e
  assume kernel: "\<forall>r\<in>E. (\<Sum>c\<in>E. m r c * v c) = 0" and e: "e \<in> E"
  have "v e = (\<Sum>e''\<in>E. if e = e'' then v e'' else 0)"
    using fin e by (simp add: sum.delta')
  also have "\<dots> = (\<Sum>e''\<in>E. (\<Sum>e'\<in>E. B e e' * m e' e'') * v e'')"
    by (rule sum.cong) (use e in \<open>simp_all add: inv\<close>)
  also have "\<dots> = (\<Sum>e''\<in>E. \<Sum>e'\<in>E. B e e' * m e' e'' * v e'')"
    by (simp add: sum_distrib_right)
  also have "\<dots> = (\<Sum>e'\<in>E. \<Sum>e''\<in>E. B e e' * m e' e'' * v e'')"
    by (rule sum.swap)
  also have "\<dots> = (\<Sum>e'\<in>E. B e e' * (\<Sum>e''\<in>E. m e' e'' * v e''))"
    by (simp add: sum_distrib_left mult.assoc)
  also have "\<dots> = (\<Sum>e'\<in>E. 0)"
    by (rule sum.cong) (use kernel in \<open>simp_all\<close>)
  finally show "v e = 0"
    by simp
qed


text \<open>With a left inverse \<open>B\<close> of the eliminated block, that solution is \<open>B \<cdot> m\<^sub>e\<^sub>\<bullet>\<close>.\<close>

lemma left_inverse_solution:
  fixes m :: "'a::field BareSliceMatrix"
  assumes fin: "finite E"
    and solve: "\<And>e. e \<in> E \<Longrightarrow> (\<Sum>e'\<in>E. m e e' * X e' j) = m e j"
    and inv: "\<And>e e''. e \<in> E \<Longrightarrow> e'' \<in> E \<Longrightarrow>
        (\<Sum>e'\<in>E. B e e' * m e' e'') = (if e = e'' then 1 else 0)"
    and e: "e \<in> E"
  shows "X e j = (\<Sum>e'\<in>E. B e e' * m e' j)"
proof -
  have "(\<Sum>e'\<in>E. B e e' * m e' j) = (\<Sum>e'\<in>E. B e e' * (\<Sum>e''\<in>E. m e' e'' * X e'' j))"
    by (rule sum.cong) (simp_all add: solve)
  also have "\<dots> = (\<Sum>e'\<in>E. \<Sum>e''\<in>E. B e e' * m e' e'' * X e'' j)"
    by (simp add: sum_distrib_left mult.assoc)
  also have "\<dots> = (\<Sum>e''\<in>E. \<Sum>e'\<in>E. B e e' * m e' e'' * X e'' j)"
    by (rule sum.swap)
  also have "\<dots> = (\<Sum>e''\<in>E. (\<Sum>e'\<in>E. B e e' * m e' e'') * X e'' j)"
    by (simp add: sum_distrib_right)
  also have "\<dots> = (\<Sum>e''\<in>E. if e = e'' then X e'' j else 0)"
    by (rule sum.cong) (use e in \<open>simp_all add: inv\<close>)
  also have "\<dots> = X e j"
    using fin e by (simp add: sum.delta')
  finally show ?thesis
    by simp
qed

lemma distinct_eliminated_dofs: "distinct (eliminated_dofs a used)"
  by (simp add: eliminated_dofs_def)

lemma none_marked:
  assumes "\<forall>i<Height a. \<not> used i"
  shows "kept_dofs a used = [0..<Height a]" and "eliminated_dofs a used = []"
  using assms by (simp_all add: kept_dofs_def eliminated_dofs_def)

lemma all_marked:
  assumes "\<forall>i<Height a. used i"
  shows "kept_dofs a used = []"
  using assms by (simp add: kept_dofs_def)

lemma CalcSchurComplement_block_formula:
  fixes a :: "'a::field FlatMatrix"
  assumes inv: "\<forall>e\<in>set (eliminated_dofs a used). \<forall>e''\<in>set (eliminated_dofs a used).
        (\<Sum>e'\<in>set (eliminated_dofs a used). B e e' * Elems a e' e'') = (if e = e'' then 1 else 0)"
  shows "CalcSchurComplement a s used =
      Some (s\<lparr>Elems := (\<lambda>i j.
        if i < length (kept_dofs a used) \<and> j < length (kept_dofs a used)
        then Elems a (kept_dofs a used ! i) (kept_dofs a used ! j)
             - (\<Sum>e\<in>set (eliminated_dofs a used). \<Sum>e'\<in>set (eliminated_dofs a used).
                  Elems a (kept_dofs a used ! i) e * B e e' * Elems a e' (kept_dofs a used ! j))
        else Elems s i j)\<rparr>)"
proof (cases "kept_dofs a used = []")
  case True
  then show ?thesis
    by (simp add: CalcSchurComplement_def)
next
  case False
  define es where "es = eliminated_dofs a used"
  define E where "E = set es"
  have dist: "distinct es"
    by (simp add: es_def distinct_eliminated_dofs)
  have inv': "(\<Sum>e'\<in>E. B e e' * Elems a e' e'') = (if e = e'' then 1 else 0)"
    if "e \<in> E" "e'' \<in> E" for e e''
    using inv that unfolding E_def es_def by blast
  have "regular (Elems a) E E"
  proof (rule left_inverse_regular [of E B])
    show "finite E"
      by (simp add: E_def)
    show "(\<Sum>e'\<in>E. B e e' * Elems a e' e'') = (if e = e'' then 1 else 0)"
      if "e \<in> E" "e'' \<in> E" for e e''
      using that by (rule inv')
  qed
  from regular_completes [OF this [unfolded E_def] refl refl dist dist] obtain M
    where run: "eliminate_block (length es) es es (Elems a) = Some M"
    by blast
  from elimination_solves [OF run refl refl dist dist] obtain X
    where solve: "\<And>e j. e \<in> E \<Longrightarrow> (\<Sum>e'\<in>E. Elems a e e' * X e' j) = Elems a e j"
      and result: "\<And>i j. M i j = Elems a i j - (\<Sum>e\<in>E. Elems a i e * X e j)"
    unfolding E_def by blast
  have X: "X e j = (\<Sum>e'\<in>E. B e e' * Elems a e' j)" if "e \<in> E" for e j
  proof (rule left_inverse_solution [OF _ _ _ that])
    show "finite E"
      by (simp add: E_def)
    show "(\<Sum>e'\<in>E. Elems a e e' * X e' j) = Elems a e j" if "e \<in> E" for e
      using that by (rule solve)
    show "(\<Sum>e'\<in>E. B e e' * Elems a e' e'') = (if e = e'' then 1 else 0)"
      if "e \<in> E" "e'' \<in> E" for e e''
      using that by (rule inv')
  qed
  have M: "M i j = Elems a i j - (\<Sum>e\<in>E. \<Sum>e'\<in>E. Elems a i e * B e e' * Elems a e' j)"
    for i j
  proof -
    have "(\<Sum>e\<in>E. Elems a i e * X e j)
        = (\<Sum>e\<in>E. Elems a i e * (\<Sum>e'\<in>E. B e e' * Elems a e' j))"
      by (rule sum.cong) (simp_all add: X)
    also have "\<dots> = (\<Sum>e\<in>E. \<Sum>e'\<in>E. Elems a i e * B e e' * Elems a e' j)"
      by (simp add: sum_distrib_left mult.assoc)
    finally show ?thesis
      by (simp add: result)
  qed
  show ?thesis
    using False run
    by (simp add: CalcSchurComplement_def Let_def es_def [symmetric] M E_def cong: if_cong)
qed

lemma CalcSchurComplement_none_marked:
  fixes a :: "'a::field FlatMatrix"
  assumes "\<forall>i<Height a. \<not> used i"
  shows "CalcSchurComplement a s used =
      Some (s\<lparr>Elems := (\<lambda>i j. if i < Height a \<and> j < Height a then Elems a i j
                               else Elems s i j)\<rparr>)"
proof (cases "Height a = 0")
  case True
  then show ?thesis
    by (simp add: CalcSchurComplement_def kept_dofs_def)
next
  case False
  have "(if i < Height a \<and> j < Height a then Elems a ([0..<Height a] ! i) ([0..<Height a] ! j)
         else Elems s i j)
      = (if i < Height a \<and> j < Height a then Elems a i j else Elems s i j)" for i j
    by simp
  then show ?thesis
    using False none_marked [OF assms]
    by (simp add: CalcSchurComplement_def Let_def cong: if_cong)
qed

lemma CalcSchurComplement_all_marked:
  fixes a :: "'a::field FlatMatrix"
  assumes "\<forall>i<Height a. used i"
  shows "CalcSchurComplement a s used = Some s"
  using all_marked [OF assms] by (simp add: CalcSchurComplement_def)

text \<open>
  C3. Whenever the eliminated block \<open>A\<^sub>e\<^sub>e\<close> has an inverse \<open>B\<close> (\<open>B \<cdot> A\<^sub>e\<^sub>e\<close> is the
  identity), \<open>CalcSchurComplement\<close> returns, and the entries it writes into \<open>S\<close> are those
  of \<open>A\<^sub>k\<^sub>k - A\<^sub>k\<^sub>e \<cdot> B \<cdot> A\<^sub>e\<^sub>k\<close>, the blocks being taken over the unmarked (k) and the
  marked (e) indices; everything else of \<open>S\<close> is as it was. For every square matrix \<open>A\<close>:
  if no index is marked, the kept block is all of \<open>A\<close> and \<open>S\<close> receives \<open>A\<close> entry by
  entry, unchanged; if every index is marked, the kept block has size zero and no entry
  of \<open>S\<close> is written.
\<close>

theorem CalcSchurComplement_kept_block:
  fixes a :: "'a::field FlatMatrix"
  shows "((\<forall>e\<in>set (eliminated_dofs a used). \<forall>e''\<in>set (eliminated_dofs a used).
             (\<Sum>e'\<in>set (eliminated_dofs a used). B e e' * Elems a e' e'')
               = (if e = e'' then 1 else 0)) \<longrightarrow>
          CalcSchurComplement a s used =
            Some (s\<lparr>Elems := (\<lambda>i j.
              if i < length (kept_dofs a used) \<and> j < length (kept_dofs a used)
              then Elems a (kept_dofs a used ! i) (kept_dofs a used ! j)
                   - (\<Sum>e\<in>set (eliminated_dofs a used). \<Sum>e'\<in>set (eliminated_dofs a used).
                        Elems a (kept_dofs a used ! i) e * B e e'
                          * Elems a e' (kept_dofs a used ! j))
              else Elems s i j)\<rparr>))
       \<and> ((\<forall>i<Height a. \<not> used i) \<longrightarrow>
            length (kept_dofs a used) = Height a
          \<and> CalcSchurComplement a s used =
              Some (s\<lparr>Elems := (\<lambda>i j. if i < Height a \<and> j < Height a then Elems a i j
                                       else Elems s i j)\<rparr>))
       \<and> ((\<forall>i<Height a. used i) \<longrightarrow>
            length (kept_dofs a used) = 0 \<and> CalcSchurComplement a s used = Some s)"
  using CalcSchurComplement_block_formula [of a used B s]
    CalcSchurComplement_none_marked [of a used s] none_marked(1) [of a used]
    CalcSchurComplement_all_marked [of a used s] all_marked [of a used]
  by simp

text \<open>
  The matrix with rows \<open>(0 1 1)\<close>, \<open>(1 0 1)\<close>, \<open>(1 1 5)\<close>. The block of the indices 0 and 1
  has a zero in its first place and is its own inverse; eliminating it leaves
  \<open>5 - 2 = 3\<close>. With no index marked the entry \<open>(2,2)\<close> of \<open>S\<close> is the 5 of \<open>A\<close>; with every
  index marked \<open>S\<close> comes back as it was.
\<close>

theorem CalcSchurComplement_kept_block_witness:
  "map_option (\<lambda>S. Elems S 0 0)
     (CalcSchurComplement
        \<lparr>Height = 3, Width = 3, Ord = RowMajor,
           Elems = (\<lambda>i j. if i = j then (if i = 2 then 5 else 0) else (1::real))\<rparr>
        \<lparr>Height = 1, Width = 1, Ord = RowMajor, Elems = (\<lambda>i j. 0)\<rparr>
        (\<lambda>i. i < 2)) = Some 3
   \<and> map_option (\<lambda>S. Elems S 2 2)
     (CalcSchurComplement
        \<lparr>Height = 3, Width = 3, Ord = RowMajor,
           Elems = (\<lambda>i j. if i = j then (if i = 2 then 5 else 0) else (1::real))\<rparr>
        \<lparr>Height = 3, Width = 3, Ord = RowMajor, Elems = (\<lambda>i j. 0)\<rparr>
        (\<lambda>i. False)) = Some 5
   \<and> CalcSchurComplement
        \<lparr>Height = 3, Width = 3, Ord = RowMajor,
           Elems = (\<lambda>i j. if i = j then (if i = 2 then 5 else 0) else (1::real))\<rparr>
        \<lparr>Height = 0, Width = 0, Ord = RowMajor, Elems = (\<lambda>i j. 0)\<rparr>
        (\<lambda>i. True)
     = Some \<lparr>Height = 0, Width = 0, Ord = RowMajor, Elems = (\<lambda>i j. 0)\<rparr>"
proof -
  let ?a = "\<lparr>Height = 3, Width = 3, Ord = RowMajor,
           Elems = (\<lambda>i j. if i = j then (if i = 2 then 5 else 0) else (1::real))\<rparr>"
  let ?s1 = "\<lparr>Height = 1, Width = 1, Ord = RowMajor, Elems = (\<lambda>i j. 0::real)\<rparr>"
  let ?s3 = "\<lparr>Height = 3, Width = 3, Ord = RowMajor, Elems = (\<lambda>i j. 0::real)\<rparr>"
  let ?s0 = "\<lparr>Height = 0, Width = 0, Ord = RowMajor, Elems = (\<lambda>i j. 0::real)\<rparr>"
  let ?B = "\<lambda>e e'. if e = e' then 0 else (1::real)"
  let ?u = "\<lambda>i::nat. i < 2"
  have ed: "eliminated_dofs ?a ?u = [0, 1]"
    by (simp add: eliminated_dofs_def upt_rec)
  have kd: "kept_dofs ?a ?u = [2]"
    by (simp add: kept_dofs_def upt_rec)
  have inv: "\<forall>e\<in>set (eliminated_dofs ?a ?u). \<forall>e''\<in>set (eliminated_dofs ?a ?u).
        (\<Sum>e'\<in>set (eliminated_dofs ?a ?u). ?B e e' * Elems ?a e' e'')
          = (if e = e'' then 1 else 0)"
    unfolding ed by simp
  from CalcSchurComplement_kept_block [of ?a ?u ?B ?s1] inv
  have "CalcSchurComplement ?a ?s1 ?u =
      Some (?s1\<lparr>Elems := (\<lambda>i j.
        if i < length (kept_dofs ?a ?u) \<and> j < length (kept_dofs ?a ?u)
        then Elems ?a (kept_dofs ?a ?u ! i) (kept_dofs ?a ?u ! j)
             - (\<Sum>e\<in>set (eliminated_dofs ?a ?u). \<Sum>e'\<in>set (eliminated_dofs ?a ?u).
                  Elems ?a (kept_dofs ?a ?u ! i) e * ?B e e'
                    * Elems ?a e' (kept_dofs ?a ?u ! j))
        else Elems ?s1 i j)\<rparr>)"
    by blast
  then have general: "map_option (\<lambda>S. Elems S 0 0) (CalcSchurComplement ?a ?s1 ?u) = Some 3"
    unfolding kd ed by simp
  from CalcSchurComplement_kept_block [of ?a "\<lambda>i. False" ?B ?s3]
  have "CalcSchurComplement ?a ?s3 (\<lambda>i. False) =
      Some (?s3\<lparr>Elems := (\<lambda>i j. if i < Height ?a \<and> j < Height ?a then Elems ?a i j
                                 else Elems ?s3 i j)\<rparr>)"
    by blast
  then have none: "map_option (\<lambda>S. Elems S 2 2) (CalcSchurComplement ?a ?s3 (\<lambda>i. False))
      = Some 5"
    by simp
  from CalcSchurComplement_kept_block [of ?a "\<lambda>i. True" ?B ?s0]
  have every: "CalcSchurComplement ?a ?s0 (\<lambda>i. True) = Some ?s0"
    by blast
  from general none every show ?thesis
    by (intro conjI)
qed

text \<open>
  The same elimination run step by step: the first pivot is the entry \<open>(0,1)\<close>. And a
  singular block, the zero in the first place of the zero matrix, has no result.
\<close>

lemma CalcSchurComplement_zero_leading_pivot:
  "map_option (\<lambda>S. Elems S 0 0)
     (CalcSchurComplement
        \<lparr>Height = 3, Width = 3, Ord = RowMajor,
           Elems = (\<lambda>i j. if i = j then (if i = 2 then 5 else 0) else (1::real))\<rparr>
        \<lparr>Height = 1, Width = 1, Ord = RowMajor, Elems = (\<lambda>i j. 0)\<rparr>
        (\<lambda>i. i < 2)) = Some 3"
  by (simp add: CalcSchurComplement_def kept_dofs_def eliminated_dofs_def upt_rec
      find_pivot_def eliminate_at_def numeral_2_eq_2 Let_def)

lemma CalcSchurComplement_singular_block:
  "CalcSchurComplement
     \<lparr>Height = 2, Width = 2, Ord = RowMajor, Elems = (\<lambda>i j. 0::real)\<rparr>
     \<lparr>Height = 1, Width = 1, Ord = RowMajor, Elems = (\<lambda>i j. 0)\<rparr>
     (\<lambda>i. i < 1) = None"
  by (simp add: CalcSchurComplement_def kept_dofs_def eliminated_dofs_def upt_rec
      find_pivot_def numeral_2_eq_2 Let_def)

end
